theory Spec2Isabelle
  imports Complex_Main
begin

section \<open>Text normalisation before synthesis\<close>

text \<open>
  \<^verbatim>\<open>preprocessTextForSpeech\<close> (src/hooks/useSpeechSynthesis.ts, lines 9-19) applies two
  global regular-expression replacements. Strings are modelled as \<^typ>\<open>string\<close>; the
  characters the two expressions look at (\<^verbatim>\<open>\d\<close>, the dot and the letters u, s, e in
  either case) are all ASCII, and without the \<^verbatim>\<open>u\<close> flag the \<^verbatim>\<open>i\<close> flag never folds a
  non-ASCII character onto an ASCII one.
\<close>

definition is_digit :: "char \<Rightarrow> bool" where
  "is_digit c = (c \<in> set ''0123456789'')"

text \<open>\<^verbatim>\<open>fractionalPart.split('').join(' ')\<close>\<close>

fun join_spaces :: "string \<Rightarrow> string" where
  "join_spaces [] = []"
| "join_spaces [c] = [c]"
| "join_spaces (c # d # cs) = c # CHR '' '' # join_spaces (d # cs)"

text \<open>
  One attempt of \<^verbatim>\<open>/(\d+)\.(\d+)/\<close> at the start of a string. Both groups are greedy;
  giving back digits of the first group can never help, since the character after a
  shorter group is a digit and not the dot. The result is the two groups and the text
  after the match.
\<close>

definition match_decimal :: "string \<Rightarrow> (string \<times> string \<times> string) option" where
  "match_decimal s =
     (let integerPart = takeWhile is_digit s in
      if integerPart = [] then None
      else (case dropWhile is_digit s of
              [] \<Rightarrow> None
            | c # r \<Rightarrow>
                if c \<noteq> CHR ''.'' then None
                else (let fractionalPart = takeWhile is_digit r in
                      if fractionalPart = [] then None
                      else Some (integerPart, fractionalPart, dropWhile is_digit r))))"

lemma match_decimal_shorter:
  assumes "match_decimal s = Some (ip, fp, rest)"
  shows "length rest < length s"
proof -
  from assms obtain r where d: "dropWhile is_digit s = CHR ''.'' # r"
    and rest: "rest = dropWhile is_digit r"
    by (auto simp: match_decimal_def Let_def split: if_splits list.splits)
  have "length rest \<le> length r"
    using rest by (simp add: length_dropWhile_le)
  moreover have "length (dropWhile is_digit s) \<le> length s"
    by (rule length_dropWhile_le)
  ultimately show ?thesis
    using d by simp
qed

text \<open>
  The global replacement: scan from the left, replace a match and go on after it,
  otherwise keep one character and try again at the next position.
\<close>

function replace_decimals :: "string \<Rightarrow> string" where
  "replace_decimals [] = []"
| "replace_decimals (c # cs) =
     (case match_decimal (c # cs) of
        Some (integerPart, fractionalPart, rest) \<Rightarrow>
          integerPart @ '' point '' @ join_spaces fractionalPart @ replace_decimals rest
      | None \<Rightarrow> c # replace_decimals cs)"
  by pat_completeness auto
termination
  by (relation "measure length") (auto dest: match_decimal_shorter)

text \<open>\<^verbatim>\<open>/use/gi\<close> at one position: the three letters in either case, nothing around them.\<close>

definition use_at :: "char \<Rightarrow> char \<Rightarrow> char \<Rightarrow> bool" where
  "use_at a b c =
     ((a = CHR ''u'' \<or> a = CHR ''U'') \<and> (b = CHR ''s'' \<or> b = CHR ''S'') \<and>
      (c = CHR ''e'' \<or> c = CHR ''E''))"

fun replace_use :: "string \<Rightarrow> string" where
  "replace_use (a # b # c # rest) =
     (if use_at a b c then ''yuuzh'' @ replace_use rest
      else a # replace_use (b # c # rest))"
| "replace_use cs = cs"

definition preprocessTextForSpeech :: "string \<Rightarrow> string" where
  "preprocessTextForSpeech text = replace_use (replace_decimals text)"

text \<open>Whether \<^verbatim>\<open>/use/i\<close> matches somewhere in a string.\<close>

fun has_use :: "string \<Rightarrow> bool" where
  "has_use (a # b # c # rest) = (use_at a b c \<or> has_use (b # c # rest))"
| "has_use cs = False"

text \<open>
  \<^verbatim>\<open>String.prototype.trim\<close> and the test \<^verbatim>\<open>s.text && s.text.trim().length > 0\<close> of
  \<^verbatim>\<open>speak\<close>. The white space and line terminators that a \<^typ>\<open>char\<close> can hold are tab,
  line feed, vertical tab, form feed, carriage return, space and the no-break space.
\<close>

definition is_space :: "char \<Rightarrow> bool" where
  "is_space c =
     (c \<in> set [CHR 0x09, CHR 0x0A, CHR 0x0B, CHR 0x0C, CHR 0x0D, CHR '' '', CHR 0xA0])"

definition trim :: "string \<Rightarrow> string" where
  "trim s = rev (dropWhile is_space (rev (dropWhile is_space s)))"

definition nonblank :: "string \<Rightarrow> bool" where
  "nonblank t = (t \<noteq> [] \<and> trim t \<noteq> [])"

section \<open>Data model (src/types.ts)\<close>

datatype TutorState =
    IDLE | SELECTING_SKILL | LOADING_LESSON | EXPLAINING | AWAITING_TASK | AWAITING_CHOICE
  | AWAITING_CONTINUE | EVALUATING | CHATTING | CLARIFYING_DOUBT | CORRECT | INCORRECT
  | COURSE_COMPLETED | ERROR

datatype AppMode = SELECTION | TUTOR | DOUBT_SOLVER | INTERVIEW_PREP

datatype Lang = En | Hi

record SpeechSegment =
  seg_text :: string
  seg_lang :: Lang

text \<open>The first argument of \<^verbatim>\<open>speak\<close>: \<^verbatim>\<open>string | SpeechSegment[]\<close>.\<close>

datatype SpeakInput = Plain string | Segments "SpeechSegment list"

text \<open>
  A \<^verbatim>\<open>SpeechSynthesisUtterance\<close> as \<^verbatim>\<open>speak\<close> builds it: the normalised text and the
  locale. The voice, the fixed rate and pitch, and the word-boundary handler (which only
  picks a random mouth shape) are left out: no property below reads them.
\<close>

record Utterance =
  utt_text :: string
  utt_lang :: string

text \<open>
  The completion callbacks the orchestrator hands to \<^verbatim>\<open>speak\<close>:
  \<^item> none (\<^verbatim>\<open>undefined\<close>);
  \<^item> \<^verbatim>\<open>() => setTutorState(st)\<close> (App.tsx, lines 183-187, 354, 507-509, 549-551);
  \<^item> a function that does nothing (the \<^verbatim>\<open>onEnd\<close> of lines 183-187 when \<^verbatim>\<open>processStep\<close> has
    set no state to follow the speech);
  \<^item> a callback that itself calls \<^verbatim>\<open>speak\<close> (App.tsx, lines 607-611, and
    \<^verbatim>\<open>handleNextInterviewRound\<close>, passed at line 407, which speaks at line 138);
  \<^item> any other callback, whose body is outside this model: its invocation is recorded
    under the number that names it.
\<close>

datatype Callback =
    NoCallback
  | SetTutorState TutorState
  | DoNothing
  | SpeakThen SpeakInput Callback string
  | External nat

record Hint =
  conceptual :: string
  direct :: string
  solution :: string

text \<open>
  A JSON value where the code expects a number: absent, \<^verbatim>\<open>null\<close>, a number (the response
  schema declares an integer, \<^verbatim>\<open>JSON.parse\<close> accepts any decimal), or a value of another
  type.
\<close>

datatype JsValue = JUndefined | JNull | JNumber rat | JOther

text \<open>
  Lesson steps as \<^verbatim>\<open>JSON.parse\<close> delivers them. A multiple-choice step carries its
  question, its choices (absent when the field is missing), the correct index and the
  feedback. Visual aids are left out.
\<close>

datatype LessonStep =
    EXPLANATION string
  | MULTIPLE_CHOICE string "string list option" JsValue string
  | CODE_TASK string string

datatype Sender = User | Ai

record ChatMessage =
  sender :: Sender
  msg_text :: string
  isSystem :: bool

text \<open>
  A \<^verbatim>\<open>File\<close> the user attaches: its name, and whether the browser's \<^verbatim>\<open>FileReader\<close> can
  read it.
\<close>

record File =
  file_name :: string
  readable :: bool

section \<open>The speech output engine and the orchestrator state\<close>

text \<open>
  One record holds the React state and refs of \<^verbatim>\<open>useSpeechSynthesis\<close>, the part of the
  browser's \<^verbatim>\<open>window.speechSynthesis\<close> the hook talks to, and the state of \<^verbatim>\<open>App\<close> that
  the handlers below read or write. A completion callback may set the orchestrator's
  state, so the engine's functions run on the whole record.

  \<^item> \<open>synthSupported\<close>: \<^verbatim>\<open>window.speechSynthesis\<close> exists;
  \<^item> \<open>synthQueue\<close>: the utterances handed to the browser and not yet finished, the one
    being spoken first (the utterances in flight);
  \<^item> \<open>submitted\<close>: every utterance ever handed to the browser, in order;
  \<^item> \<open>invoked\<close>: the \<open>External\<close> callbacks invoked so far, in order;
  \<^item> \<open>currentSkill\<close>: the name of the selected skill (\<^verbatim>\<open>currentSkill?.name\<close>), if one is
    selected; \<open>topicsCompleted\<close>: the \<^verbatim>\<open>isCompleted\<close> flags of its topics;
  \<^item> \<open>currentTopic\<close>: the title of the selected topic, if one is selected;
  \<^item> \<open>lesson\<close>: the steps of the installed lesson, if one is installed;
  \<^item> \<open>solutionLanguage\<close>: \<^verbatim>\<open>solution?.language\<close> of the doubt solver;
  \<^item> \<open>currentInterviewRound\<close>: the gender of the interviewer of the current round, when an
    interview session with a current round exists;
  \<^item> \<open>lastFailedMessage\<close>: the message and the attachment of the failed chat exchange.

  The user profiles, the whiteboard, the diagram and the interview plan are not part of
  the record. \<^verbatim>\<open>speak\<close> reads the mute flag of the live state.
\<close>

record App =
  isMuted :: bool
  isSpeaking :: bool
  spokenText :: string
  mouthShape :: string
  utteranceQueue :: "Utterance list"
  onEndCallback :: Callback
  synthSupported :: bool
  synthQueue :: "Utterance list"
  submitted :: "Utterance list"
  invoked :: "nat list"
  appMode :: AppMode
  tutorState :: TutorState
  currentSkill :: "string option"
  topicsCompleted :: "bool list"
  currentTopic :: "string option"
  lesson :: "LessonStep list option"
  currentStepIndex :: nat
  incorrectAttempts :: nat
  currentHint :: "Hint option"
  solutionLanguage :: "string option"
  currentInterviewRound :: "string option"
  userCode :: string
  conversationHistory :: "ChatMessage list"
  isLoading :: bool
  error :: "string option"
  chatError :: "string option"
  lastFailedMessage :: "(string \<times> File option) option"
  stateBeforeDoubt :: TutorState

text \<open>
  \<^verbatim>\<open>window.speechSynthesis.speak(u)\<close> and \<^verbatim>\<open>window.speechSynthesis.cancel()\<close>. The browser's
  \<^verbatim>\<open>cancel\<close> empties its queue. Whether the browser then still reports an end for the
  utterance it was speaking is left open: such a late end is a run of the handler
  \<^verbatim>\<open>processQueue\<close> on the state of that moment.
\<close>

definition synth_speak :: "Utterance \<Rightarrow> App \<Rightarrow> App" where
  "synth_speak u s = s\<lparr>synthQueue := synthQueue s @ [u], submitted := submitted s @ [u]\<rparr>"

definition synth_cancel :: "App \<Rightarrow> App" where
  "synth_cancel s = s\<lparr>synthQueue := []\<rparr>"

text \<open>\<^verbatim>\<open>cancel\<close> (useSpeechSynthesis.ts, lines 54-65).\<close>

definition cancel :: "App \<Rightarrow> App" where
  "cancel s =
     (let s1 = s\<lparr>utteranceQueue := [], onEndCallback := NoCallback\<rparr>;
          s2 = (if synthSupported s1 then synth_cancel s1 else s1)
      in s2\<lparr>isSpeaking := False, mouthShape := ''X''\<rparr>)"

text \<open>The utterance \<^verbatim>\<open>speak\<close> builds for one segment (lines 96-110).\<close>

definition mk_utterance :: "SpeechSegment \<Rightarrow> Utterance" where
  "mk_utterance segment =
     \<lparr>utt_text = preprocessTextForSpeech (seg_text segment),
      utt_lang = (if seg_lang segment = Hi then ''hi-IN'' else ''en-US'')\<rparr>"

text \<open>The segments \<^verbatim>\<open>speak\<close> works on (lines 78-86).\<close>

definition segments_of :: "SpeakInput \<Rightarrow> string \<Rightarrow> SpeechSegment list" where
  "segments_of textOrSegments langOrGender =
     filter (\<lambda>seg. nonblank (seg_text seg))
       (case textOrSegments of
          Plain t \<Rightarrow> [\<lparr>seg_text = t, seg_lang = (if langOrGender = ''hi-IN'' then Hi else En)\<rparr>]
        | Segments segs \<Rightarrow> segs)"

text \<open>
  \<^verbatim>\<open>speak\<close> (lines 67-145), \<^verbatim>\<open>processQueue\<close> (lines 39-52) and the invocation of a
  callback. They call each other: \<^verbatim>\<open>speak\<close> starts the queue with \<^verbatim>\<open>processQueue\<close>,
  \<^verbatim>\<open>processQueue\<close> invokes the stored callback when the queue is empty, and a callback
  may call \<^verbatim>\<open>speak\<close>. In \<^verbatim>\<open>processQueue\<close> the stored callback is cleared after it has
  returned (line 49 follows line 48).
\<close>

function speak :: "SpeakInput \<Rightarrow> Callback \<Rightarrow> string \<Rightarrow> App \<Rightarrow> App"
  and processQueue :: "App \<Rightarrow> App"
  and invoke :: "Callback \<Rightarrow> App \<Rightarrow> App"
where
  "speak textOrSegments onEnd langOrGender s =
     (if isMuted s \<or> \<not> synthSupported s then invoke onEnd s
      else if segments_of textOrSegments langOrGender = [] then invoke onEnd (cancel s)
      else if map mk_utterance (segments_of textOrSegments langOrGender) \<noteq> [] then
        processQueue ((cancel s)
          \<lparr>spokenText := concat (map seg_text (segments_of textOrSegments langOrGender)),
           utteranceQueue := map mk_utterance (segments_of textOrSegments langOrGender),
           onEndCallback := onEnd, isSpeaking := True, mouthShape := ''A''\<rparr>)
      else invoke onEnd ((cancel s)
          \<lparr>spokenText := concat (map seg_text (segments_of textOrSegments langOrGender)),
           utteranceQueue := map mk_utterance (segments_of textOrSegments langOrGender)\<rparr>))"
| "processQueue s =
     (if utteranceQueue s \<noteq> [] then
        synth_speak (hd (utteranceQueue s)) (s\<lparr>utteranceQueue := tl (utteranceQueue s)\<rparr>)
      else if onEndCallback s \<noteq> NoCallback then
        (invoke (onEndCallback s) (s\<lparr>isSpeaking := False, mouthShape := ''X''\<rparr>))
          \<lparr>onEndCallback := NoCallback\<rparr>
      else s\<lparr>isSpeaking := False, mouthShape := ''X''\<rparr>)"
| "invoke NoCallback s = s"
| "invoke (SetTutorState st) s = s\<lparr>tutorState := st\<rparr>"
| "invoke DoNothing s = s"
| "invoke (SpeakThen textOrSegments onEnd langOrGender) s = speak textOrSegments onEnd langOrGender s"
| "invoke (External n) s = s\<lparr>invoked := invoked s @ [n]\<rparr>"
  by pat_completeness auto
termination
  by (relation "measure (\<lambda>x. case x of
          Inl (_, onEnd, _, _) \<Rightarrow> 3 * size onEnd + 2
        | Inr (Inl s) \<Rightarrow> (if utteranceQueue s \<noteq> [] then 0 else 3 * size (onEndCallback s) + 2)
        | Inr (Inr (cb, _)) \<Rightarrow> 3 * size cb + 1)")
     (auto simp: cancel_def synth_cancel_def)

declare speak.simps [simp del]

text \<open>
  The browser reports that the utterance it was speaking has finished: it leaves the
  browser's queue and its \<^verbatim>\<open>onend\<close> handler (line 121) runs \<^verbatim>\<open>processQueue\<close>.
\<close>

definition utterance_ended :: "App \<Rightarrow> App" where
  "utterance_ended s =
     (if synthQueue s = [] then s else processQueue (s\<lparr>synthQueue := tl (synthQueue s)\<rparr>))"

text \<open>\<^verbatim>\<open>toggleMute\<close> (lines 147-155).\<close>

definition toggleMute :: "App \<Rightarrow> App" where
  "toggleMute s =
     (let nextState = \<not> isMuted s;
          s1 = (if nextState then cancel s else s)
      in s1\<lparr>isMuted := nextState\<rparr>)"

text \<open>The state after mounting: the initial values of every \<^verbatim>\<open>useState\<close> and \<^verbatim>\<open>useRef\<close>.\<close>

definition initial_app :: App where
  "initial_app =
     \<lparr>isMuted = False, isSpeaking = False, spokenText = [], mouthShape = ''X'',
      utteranceQueue = [], onEndCallback = NoCallback, synthSupported = True,
      synthQueue = [], submitted = [], invoked = [],
      appMode = SELECTION, tutorState = IDLE, currentSkill = None, topicsCompleted = [],
      currentTopic = None, lesson = None,
      currentStepIndex = 0, incorrectAttempts = 0, currentHint = None,
      solutionLanguage = None, currentInterviewRound = None, userCode = [],
      conversationHistory = [], isLoading = False, error = None, chatError = None,
      lastFailedMessage = None, stateBeforeDoubt = AWAITING_TASK\<rparr>"

section \<open>The content provider (services/geminiServices, in src/App.tsx from line 1065)\<close>

text \<open>
  What a \<^verbatim>\<open>catch\<close> receives: an instance of \<^verbatim>\<open>Error\<close> with its message, or any other
  value.
\<close>

datatype Thrown = ErrorObject string | NonError

text \<open>\<^verbatim>\<open>String.prototype.includes\<close>.\<close>

fun starts_with :: "string \<Rightarrow> string \<Rightarrow> bool" where
  "starts_with s [] = True"
| "starts_with [] (c # cs) = False"
| "starts_with (x # xs) (c # cs) = (x = c \<and> starts_with xs cs)"

fun str_includes :: "string \<Rightarrow> string \<Rightarrow> bool" where
  "str_includes [] sub = (sub = [])"
| "str_includes (x # xs) sub = (starts_with (x # xs) sub \<or> str_includes xs sub)"

definition QUOTA_MESSAGE :: string where
  "QUOTA_MESSAGE =
     ''You'' @ [CHR 0x27] @ ''ve reached the daily API quota for this model. Please try again tomorrow.''"

text \<open>
  \<^verbatim>\<open>handleApiError\<close> (lines 1075-1081). The result is the message of the \<^verbatim>\<open>Error\<close> it
  returns; \<open>context\<close> only reaches the debug log.
\<close>

definition handleApiError :: "Thrown \<Rightarrow> string \<Rightarrow> string \<Rightarrow> string" where
  "handleApiError err context defaultMessage =
     (case err of
        ErrorObject message \<Rightarrow>
          if str_includes message ''429'' \<or> str_includes message ''RESOURCE_EXHAUSTED''
          then QUOTA_MESSAGE else defaultMessage
      | NonError \<Rightarrow> defaultMessage)"

text \<open>
  Seven of the eight provider functions end in
  \<^verbatim>\<open>try { ... return value } catch (error) { throw handleApiError(error, name, message) }\<close>.
  \<open>guarded\<close> is that shape: the outcome of the body (what it throws, from the remote call,
  from \<^verbatim>\<open>JSON.parse\<close> or from its own format checks, or what it returns) becomes the
  outcome of the function.
\<close>

definition guarded :: "string \<Rightarrow> string \<Rightarrow> Thrown + 'a \<Rightarrow> Thrown + 'a" where
  "guarded context defaultMessage body =
     (case body of
        Inl err \<Rightarrow> Inl (ErrorObject (handleApiError err context defaultMessage))
      | Inr v \<Rightarrow> Inr v)"

text \<open>
  \<^verbatim>\<open>fileToGenerativePart\<close> (lines 1084-1097): the promise is rejected by
  \<^verbatim>\<open>reader.onerror\<close> with the reader's error event, which is no \<^verbatim>\<open>Error\<close>. The part it
  builds from a file it could read only enters the request.
\<close>

definition fileToGenerativePart :: "File \<Rightarrow> Thrown + unit" where
  "fileToGenerativePart file = (if readable file then Inr () else Inl NonError)"

text \<open>
  \<^verbatim>\<open>if (file) { ... await fileToGenerativePart(file) ... }\<close> (lines 1376-1379, 1484-1487,
  1739-1744): the three functions that accept a file read it while they build the
  request, before their \<^verbatim>\<open>try\<close>.
\<close>

definition file_part :: "File option \<Rightarrow> Thrown + unit" where
  "file_part file = (case file of Some f \<Rightarrow> fileToGenerativePart f | None \<Rightarrow> Inr ())"

text \<open>
  \<^verbatim>\<open>generateInterviewPlan\<close> (lines 1351-1412). The parsed plan: \<open>plan_rounds\<close> is \<open>None\<close>
  when the field is missing or \<^verbatim>\<open>null\<close>, \<open>plan_openingStatement\<close> when it is missing. A
  round is given by the gender of its interviewer, which is all the orchestrator state
  below keeps of it.
\<close>

record RawPlan =
  plan_rounds :: "string list option"
  plan_openingStatement :: "string option"

definition generateInterviewPlan ::
  "File option \<Rightarrow> Thrown + RawPlan \<Rightarrow> Thrown + string list \<times> string" where
  "generateInterviewPlan cvFile response =
     (case file_part cvFile of
        Inl err \<Rightarrow> Inl err
      | Inr part \<Rightarrow>
          guarded ''generateInterviewPlan''
            ''I had trouble preparing the interview plan. Please check the inputs and try again.''
            (case response of
               Inl err \<Rightarrow> Inl err
             | Inr plan \<Rightarrow>
                 (case (plan_rounds plan, plan_openingStatement plan) of
                    (Some rounds, Some openingStatement) \<Rightarrow>
                      if openingStatement = [] then
                        Inl (ErrorObject ''Invalid interview plan format from AI.'')
                      else Inr (rounds, openingStatement)
                  | _ \<Rightarrow> Inl (ErrorObject ''Invalid interview plan format from AI.''))))"

text \<open>
  \<^verbatim>\<open>generateProblemSolution\<close> (lines 1476-1517). A field of the parsed solution is \<open>None\<close>
  when it is missing.
\<close>

record RawSolution =
  sol_problemExplanation :: "string option"
  sol_solutionExplanation :: "string option"
  sol_solutionCode :: "string option"
  sol_language :: "string option"

record ProblemSolution =
  problemExplanation :: string
  solutionExplanation :: string
  solutionCode :: string
  language :: string

definition generateProblemSolution ::
  "File option \<Rightarrow> Thrown + RawSolution \<Rightarrow> Thrown + ProblemSolution" where
  "generateProblemSolution file response =
     (case file_part file of
        Inl err \<Rightarrow> Inl err
      | Inr part \<Rightarrow>
          guarded ''generateProblemSolution''
            ''I had trouble solving that problem. Please try rephrasing it or checking the uploaded file.''
            (case response of
               Inl err \<Rightarrow> Inl err
             | Inr parsed \<Rightarrow>
                 (case (sol_problemExplanation parsed, sol_solutionExplanation parsed,
                        sol_solutionCode parsed, sol_language parsed) of
                    (Some pe, Some se, Some code, Some lang) \<Rightarrow>
                      if pe = [] \<or> se = [] \<or> code = [] \<or> lang = [] then
                        Inl (ErrorObject ''Invalid solution format from AI.'')
                      else Inr \<lparr>problemExplanation = pe, solutionExplanation = se,
                                solutionCode = code, language = lang\<rparr>
                  | _ \<Rightarrow> Inl (ErrorObject ''Invalid solution format from AI.''))))"

text \<open>
  \<^verbatim>\<open>generateCourseOutline\<close> (lines 1520-1550). The parsed curriculum: \<open>ol_skillName\<close> is
  \<open>None\<close> when the field is missing, \<open>ol_topics\<close> (the titles of the topics) when the field
  is not an array.
\<close>

record RawOutline =
  ol_skillName :: "string option"
  ol_topics :: "string list option"

definition generateCourseOutline :: "Thrown + RawOutline \<Rightarrow> Thrown + string \<times> string list" where
  "generateCourseOutline response =
     guarded ''generateCourseOutline''
       ''I had trouble designing that course. Please try a different topic.''
       (case response of
          Inl err \<Rightarrow> Inl err
        | Inr curriculum \<Rightarrow>
            (case (ol_skillName curriculum, ol_topics curriculum) of
               (Some name, Some topics) \<Rightarrow>
                 if name = [] then Inl (ErrorObject ''Invalid curriculum format from AI.'')
                 else Inr (name, topics)
             | _ \<Rightarrow> Inl (ErrorObject ''Invalid curriculum format from AI.'')))"

text \<open>
  The lesson as parsed from the response: \<open>topicTitle\<close> is \<open>None\<close> when the field is
  missing, \<open>steps\<close> is \<open>None\<close> when the field is not an array.
\<close>

record RawLesson =
  topicTitle :: "string option"
  steps :: "LessonStep list option"

text \<open>The filter predicate of \<^verbatim>\<open>generateLessonContent\<close> (lines 1590-1605).\<close>

fun step_is_kept :: "LessonStep \<Rightarrow> bool" where
  "step_is_kept (MULTIPLE_CHOICE question choices correctChoiceIndex feedback) =
     (case correctChoiceIndex of
        JNumber i \<Rightarrow> (case choices of Some cs \<Rightarrow> i < of_nat (length cs) | None \<Rightarrow> False)
      | _ \<Rightarrow> False)"
| "step_is_kept step = True"

text \<open>
  The body of the \<^verbatim>\<open>try\<close> of \<^verbatim>\<open>generateLessonContent\<close> (lines 1577-1613), from the outcome
  of the remote call and \<^verbatim>\<open>JSON.parse\<close>; the result is the title and the validated steps.
\<close>

definition lesson_body :: "Thrown + RawLesson \<Rightarrow> Thrown + string \<times> LessonStep list" where
  "lesson_body response =
     (case response of
        Inl err \<Rightarrow> Inl err
      | Inr parsed \<Rightarrow>
          (case (topicTitle parsed, steps parsed) of
             (Some title, Some originalSteps) \<Rightarrow>
               if title = [] \<or> length originalSteps = 0 then
                 Inl (ErrorObject ''Invalid lesson format from AI.'')
               else if length (filter step_is_kept originalSteps) = 0 \<and> length originalSteps > 0 then
                 Inl (ErrorObject
                   ''The AI returned a lesson where all steps were invalid. Please try generating it again.'')
               else Inr (title, filter step_is_kept originalSteps)
           | _ \<Rightarrow> Inl (ErrorObject ''Invalid lesson format from AI.'')))"

definition generateLessonContent :: "Thrown + RawLesson \<Rightarrow> Thrown + string \<times> LessonStep list" where
  "generateLessonContent response =
     guarded ''generateLessonContent'' ''I had trouble preparing the next lesson. Please try again.''
       (lesson_body response)"

text \<open>
  Whether a multiple-choice step can be answered: its correct index is a position of its
  choices array, that is, a whole number from 0 to the length of the array less one.
\<close>

fun index_in_range :: "LessonStep \<Rightarrow> bool" where
  "index_in_range (MULTIPLE_CHOICE question choices correctChoiceIndex feedback) =
     (case (correctChoiceIndex, choices) of
        (JNumber i, Some cs) \<Rightarrow> of_int \<lfloor>i\<rfloor> = i \<and> 0 \<le> i \<and> i < of_nat (length cs)
      | _ \<Rightarrow> False)"
| "index_in_range step = True"

text \<open>
  \<^verbatim>\<open>evaluateCode\<close> (lines 1621-1677). The parsed verdict: \<open>ev_isCorrect\<close> is \<open>None\<close> when the
  field is not a boolean, \<open>ev_feedback\<close> when it is not a string, \<open>ev_hint\<close> when it is
  missing.
\<close>

record RawEvaluation =
  ev_isCorrect :: "bool option"
  ev_feedback :: "string option"
  ev_hint :: "Hint option"

definition evaluateCode :: "Thrown + RawEvaluation \<Rightarrow> Thrown + bool \<times> string \<times> Hint option" where
  "evaluateCode response =
     guarded ''evaluateCode'' ''I had trouble evaluating your code. Please try again.''
       (case response of
          Inl err \<Rightarrow> Inl err
        | Inr evaluation \<Rightarrow>
            (case (ev_isCorrect evaluation, ev_feedback evaluation) of
               (Some isCorrect, Some feedback) \<Rightarrow>
                 if \<not> isCorrect \<and> ev_hint evaluation = None then
                   Inl (ErrorObject ''AI failed to provide a hint for the incorrect answer.'')
                 else Inr (isCorrect, feedback, ev_hint evaluation)
             | _ \<Rightarrow> Inl (ErrorObject ''Invalid evaluation format from AI.'')))"

text \<open>
  \<^verbatim>\<open>generateChatResponse\<close> (lines 1679-1772) and \<^verbatim>\<open>generateInterviewFollowUp\<close>
  (lines 1415-1473). The parsed reply: \<open>responseText\<close> is \<open>None\<close> when the field is
  missing, \<open>isRoundFinished\<close> when it is not a boolean (the chat reply has no such field).
  \<^verbatim>\<open>generateChatResponse\<close> reads the attachment before its \<^verbatim>\<open>try\<close> (line 1743).
\<close>

record RawReply =
  responseText :: "string option"
  updatedCode :: "string option"
  isRoundFinished :: "bool option"

definition generateChatResponse ::
  "File option \<Rightarrow> Thrown + RawReply \<Rightarrow> Thrown + RawReply" where
  "generateChatResponse attachment response =
     (case file_part attachment of
        Inl err \<Rightarrow> Inl err
      | Inr part \<Rightarrow>
          guarded ''generateChatResponse''
            (''Sorry, I'' @ [CHR 0x27] @ ''m having trouble responding right now. Please try again.'')
            (case response of
               Inl err \<Rightarrow> Inl err
             | Inr chatResponse \<Rightarrow>
                 if responseText chatResponse = None \<or> responseText chatResponse = Some [] then
                   Inl (ErrorObject ''Invalid chat response format from AI.'')
                 else Inr chatResponse))"

definition generateInterviewFollowUp :: "Thrown + RawReply \<Rightarrow> Thrown + RawReply" where
  "generateInterviewFollowUp response =
     guarded ''generateInterviewFollowUp''
       (''Sorry, I'' @ [CHR 0x27] @ ''m having a moment of network latency. Could you please repeat that?'')
       (case response of
          Inl err \<Rightarrow> Inl err
        | Inr followUp \<Rightarrow>
            if responseText followUp = None \<or> responseText followUp = Some []
               \<or> isRoundFinished followUp = None then
              Inl (ErrorObject ''Invalid interview follow-up format from AI.'')
            else Inr followUp)"


section \<open>The orchestrator's handlers (src/App.tsx)\<close>

text \<open>
  A handler is a closure over the values of the render that created it: it reads the
  state through those captured constants, and a \<^verbatim>\<open>setState\<close> call does not change them.
  So each handler takes the render it closes over (\<open>r\<close>) and the live state it updates
  (\<open>s\<close>); only a functional update (\<^verbatim>\<open>setX(prev => ...)\<close>) and the engine's refs read the
  live state. A handler called on a settled screen has \<open>r = s\<close>. What an awaited provider
  call yields is a parameter.
\<close>

text \<open>
  \<^verbatim>\<open>err instanceof Error ? err.message : 'An unknown error occurred'\<close> (lines 236, 451,
  519, 616, 617, 668): what the handlers show of a value they caught.
\<close>

definition error_text :: "Thrown \<Rightarrow> string" where
  "error_text err = (case err of ErrorObject m \<Rightarrow> m | NonError \<Rightarrow> ''An unknown error occurred'')"

text \<open>\<^verbatim>\<open>currentStep = lesson?.steps[currentStepIndex]\<close> (line 89).\<close>

definition currentStep :: "App \<Rightarrow> LessonStep option" where
  "currentStep s =
     (case lesson s of
        None \<Rightarrow> None
      | Some sts \<Rightarrow> if currentStepIndex s < length sts then Some (sts ! currentStepIndex s) else None)"

text \<open>\<^verbatim>\<open>Array.prototype.findIndex\<close>: \<open>None\<close> for \<^verbatim>\<open>-1\<close>.\<close>

fun find_index :: "('a \<Rightarrow> bool) \<Rightarrow> 'a list \<Rightarrow> nat option" where
  "find_index P [] = None"
| "find_index P (x # xs) = (if P x then Some 0 else map_option Suc (find_index P xs))"

text \<open>\<^verbatim>\<open>toLowerCase\<close> on ASCII letters.\<close>

definition to_lower :: "char \<Rightarrow> char" where
  "to_lower c =
     (case map_of (zip ''ABCDEFGHIJKLMNOPQRSTUVWXYZ'' ''abcdefghijklmnopqrstuvwxyz'') c of
        Some l \<Rightarrow> l
      | None \<Rightarrow> c)"

text \<open>
  \<^verbatim>\<open>handleAnswerMcq\<close> (lines 344-361). The loose equality of line 351 is read on
  numbers: a step that came through the provider's filter has a number as its index.
\<close>

definition handleAnswerMcq :: "App \<Rightarrow> nat \<Rightarrow> App \<Rightarrow> App" where
  "handleAnswerMcq r choiceIndex s =
     (case currentStep r of
        Some (MULTIPLE_CHOICE question choices correctChoiceIndex feedback) \<Rightarrow>
          (let cs = (case choices of Some l \<Rightarrow> l | None \<Rightarrow> []);
               s1 = s\<lparr>conversationHistory := conversationHistory s @
                     [\<lparr>sender = User,
                       msg_text = ''Selected: '' @ [CHR 0x22] @
                         (if choiceIndex < length cs then cs ! choiceIndex else ''undefined'') @
                         [CHR 0x22],
                       isSystem = False\<rparr>]\<rparr>
           in if correctChoiceIndex = JNumber (of_nat choiceIndex) then
                speak (Plain (if feedback = [] then ''Bilkul sahi!'' else feedback))
                  (SetTutorState AWAITING_CONTINUE) ''hi-IN'' s1
              else
                (speak (Plain ''Yeh sahi nahi hai. Ek baar phir sochiye.'') NoCallback ''hi-IN'' s1)
                  \<lparr>tutorState := INCORRECT\<rparr>)
      | _ \<Rightarrow> s)"

text \<open>
  The answer detection at the head of \<^verbatim>\<open>handleSendChatMessage\<close> (lines 369-380): the
  index of the first choice that contains the cleaned message, if the message is to be
  taken as an answer.
\<close>

definition mcq_match :: "App \<Rightarrow> string \<Rightarrow> bool \<Rightarrow> nat option" where
  "mcq_match r message isSystemMessage =
     (if appMode r = TUTOR \<and> tutorState r = AWAITING_CHOICE \<and> \<not> isSystemMessage then
        (case currentStep r of
           Some (MULTIPLE_CHOICE question choices correctChoiceIndex feedback) \<Rightarrow>
             find_index
               (\<lambda>c. str_includes c
                  (trim (filter (\<lambda>x. x \<notin> set ''.,?'') (map to_lower message))))
               (map (map to_lower) (case choices of Some l \<Rightarrow> l | None \<Rightarrow> []))
         | _ \<Rightarrow> None)
      else None)"

text \<open>The \<^verbatim>\<open>catch\<close> of \<^verbatim>\<open>handleSendChatMessage\<close> (lines 450-456).\<close>

definition chat_catch :: "App \<Rightarrow> string \<Rightarrow> File option \<Rightarrow> Thrown \<Rightarrow> App \<Rightarrow> App" where
  "chat_catch r message attachment err s =
     s\<lparr>chatError := Some (error_text err),
       lastFailedMessage := Some (message, attachment),
       tutorState := stateBeforeDoubt r\<rparr>"

text \<open>
  The end of the \<^verbatim>\<open>try\<close> of \<^verbatim>\<open>handleSendChatMessage\<close> (lines 427-448). The whiteboard
  and diagram updates are left out.
\<close>

definition chat_success :: "App \<Rightarrow> RawReply \<Rightarrow> string \<Rightarrow> App \<Rightarrow> App" where
  "chat_success r aiResponse langOrGender s =
     (let reply = (case responseText aiResponse of Some t \<Rightarrow> t | None \<Rightarrow> []);
          s1 = s\<lparr>conversationHistory := conversationHistory s @
                [\<lparr>sender = Ai, msg_text = reply, isSystem = False\<rparr>]\<rparr>;
          s2 = speak (Plain reply) NoCallback langOrGender s1;
          s3 = (case updatedCode aiResponse of
                  Some code \<Rightarrow> if code \<noteq> [] then s2\<lparr>userCode := code\<rparr> else s2
                | None \<Rightarrow> s2)
      in s3\<lparr>tutorState := (if appMode r = TUTOR then CLARIFYING_DOUBT else AWAITING_TASK)\<rparr>)"

text \<open>
  \<^verbatim>\<open>handleSendChatMessage\<close> (lines 364-457). \<open>response\<close> is the outcome of the remote call
  of the provider function the handler awaits. \<^verbatim>\<open>handleNextInterviewRound\<close>, the callback
  of line 407, is outside this model: it is the callback \<open>External 0\<close>.
\<close>

definition handleSendChatMessage ::
  "App \<Rightarrow> string \<Rightarrow> File option \<Rightarrow> bool \<Rightarrow> Thrown + RawReply \<Rightarrow> App \<Rightarrow> App" where
  "handleSendChatMessage r message attachment isSystemMessage response s =
     (if trim message = [] \<and> attachment = None then s
      else case mcq_match r message isSystemMessage of
        Some matchedIndex \<Rightarrow> handleAnswerMcq r matchedIndex s
      | None \<Rightarrow>
         (let s1 = s\<lparr>conversationHistory := conversationHistory r @
                     [\<lparr>sender = User, msg_text = message, isSystem = isSystemMessage\<rparr>],
                    stateBeforeDoubt := tutorState r,
                    tutorState := CHATTING,
                    chatError := None,
                    lastFailedMessage := None\<rparr>
          in if appMode r = INTERVIEW_PREP then
               (case currentInterviewRound r of
                  None \<Rightarrow>
                    chat_catch r message attachment
                      (ErrorObject ''Interview session not initialized.'') s1
                | Some interviewerGender \<Rightarrow>
                    (case generateInterviewFollowUp response of
                       Inl err \<Rightarrow> chat_catch r message attachment err s1
                     | Inr aiResponse \<Rightarrow>
                         if isRoundFinished aiResponse = Some True then
                           speak (Plain (case responseText aiResponse of Some t \<Rightarrow> t | None \<Rightarrow> []))
                             (External 0) interviewerGender
                             (s1\<lparr>conversationHistory := conversationHistory s1 @
                                [\<lparr>sender = Ai,
                                  msg_text = (case responseText aiResponse of Some t \<Rightarrow> t | None \<Rightarrow> []),
                                  isSystem = False\<rparr>]\<rparr>)
                         else chat_success r aiResponse interviewerGender s1))
             else if (if appMode r = TUTOR
                      then lesson r = None \<or> currentSkill r = None \<or> currentSkill r = Some []
                      else solutionLanguage r = None \<or> solutionLanguage r = Some []) then
               chat_catch r message attachment (ErrorObject ''Chat context not available.'') s1
             else
               (case generateChatResponse attachment response of
                  Inl err \<Rightarrow> chat_catch r message attachment err s1
                | Inr aiResponse \<Rightarrow> chat_success r aiResponse ''hi-IN'' s1)))"

text \<open>
  \<^verbatim>\<open>handleSubmitCode\<close> (lines 481-524). \<open>evalResponse\<close> is the outcome of the remote call
  behind \<^verbatim>\<open>evaluateCode\<close>, \<open>chatResponse\<close> the one behind the chat path of interview mode.
\<close>

definition handleSubmitCode ::
  "App \<Rightarrow> Thrown + RawEvaluation \<Rightarrow> Thrown + RawReply \<Rightarrow> App \<Rightarrow> App" where
  "handleSubmitCode r evalResponse chatResponse s =
     (if (appMode r \<noteq> TUTOR \<and> appMode r \<noteq> INTERVIEW_PREP)
         \<or> (appMode r = TUTOR \<and>
             (currentSkill r = None \<or>
              (case currentStep r of Some (CODE_TASK mission startingCode) \<Rightarrow> False | _ \<Rightarrow> True)))
      then s
      else
        (let s1 = s\<lparr>isLoading := True, error := None, tutorState := EVALUATING\<rparr>
         in if appMode r = INTERVIEW_PREP then
              (handleSendChatMessage r
                 (''(I'' @ [CHR 0x27] @ ''ve written my code solution on the whiteboard. Here it is:'' @
                  [CHR 0x0A, CHR 0x0A] @ userCode r @ [CHR 0x0A, CHR 0x0A] @
                  ''Please evaluate it and provide feedback on time/space complexity, and suggest optimizations.)'')
                 None False chatResponse s1)
                \<lparr>isLoading := False\<rparr>
            else
              (case (currentStep r, currentSkill r) of
                 (Some (CODE_TASK mission startingCode), Some skillName) \<Rightarrow>
                   (case evaluateCode evalResponse of
                      Inl err \<Rightarrow>
                        s1\<lparr>error := Some (error_text err),
                           tutorState := ERROR,
                           isLoading := False\<rparr>
                    | Inr (isCorrect, feedback, hint) \<Rightarrow>
                        (let s2 = s1\<lparr>conversationHistory := conversationHistory s1 @
                                    [\<lparr>sender = User, msg_text = ''(Submitting code for evaluation)'',
                                      isSystem = False\<rparr>,
                                     \<lparr>sender = Ai, msg_text = feedback, isSystem = False\<rparr>]\<rparr>;
                             s3 = (if isCorrect then
                                     speak (Plain feedback) (SetTutorState AWAITING_CONTINUE) ''hi-IN''
                                       (s2\<lparr>incorrectAttempts := 0, currentHint := None,
                                           tutorState := AWAITING_CONTINUE\<rparr>)
                                   else
                                     (speak (Plain feedback) NoCallback ''hi-IN''
                                        (s2\<lparr>incorrectAttempts := incorrectAttempts s2 + 1,
                                            currentHint := hint\<rparr>))
                                       \<lparr>tutorState := INCORRECT\<rparr>)
                         in s3\<lparr>isLoading := False\<rparr>))
               | _ \<Rightarrow> s1\<lparr>isLoading := False\<rparr>)))"

text \<open>
  \<^verbatim>\<open>processStep\<close> (lines 144-194), called with a step. It reads nothing of its render but
  for the debug log. A text to speak that is empty is not spoken (line 191).
\<close>

fun processStep :: "LessonStep \<Rightarrow> App \<Rightarrow> App" where
  "processStep (EXPLANATION content) s =
     (let s1 = s\<lparr>tutorState := EXPLAINING,
                 conversationHistory := conversationHistory s @
                   [\<lparr>sender = Ai, msg_text = content, isSystem = False\<rparr>]\<rparr>
      in if content \<noteq> [] then speak (Plain content) (SetTutorState AWAITING_CONTINUE) ''hi-IN'' s1
         else s1)"
| "processStep (MULTIPLE_CHOICE question choices correctChoiceIndex feedback) s =
     (let s1 = s\<lparr>tutorState := AWAITING_CHOICE,
                 conversationHistory := conversationHistory s @
                   [\<lparr>sender = Ai, msg_text = question, isSystem = False\<rparr>]\<rparr>
      in if question \<noteq> [] then speak (Plain question) DoNothing ''hi-IN'' s1 else s1)"
| "processStep (CODE_TASK mission startingCode) s =
     speak (Segments [\<lparr>seg_text = ''Ab, aapki baari. '', seg_lang = Hi\<rparr>,
                      \<lparr>seg_text = mission, seg_lang = En\<rparr>]) DoNothing ''hi-IN''
       (s\<lparr>tutorState := AWAITING_TASK,
          conversationHistory := conversationHistory s @
            [\<lparr>sender = Ai, msg_text = ''Ab, aapki baari. '' @ mission, isSystem = False\<rparr>]\<rparr>)"

text \<open>The code the whiteboard starts with (lines 217-218).\<close>

definition initialCode :: "LessonStep list \<Rightarrow> string" where
  "initialCode sts =
     (case find (\<lambda>step. case step of CODE_TASK mission startingCode \<Rightarrow> True | _ \<Rightarrow> False) sts of
        Some (CODE_TASK mission startingCode) \<Rightarrow> startingCode
      | _ \<Rightarrow> ''// Your code will appear here'')"

text \<open>
  \<^verbatim>\<open>fetchLesson\<close> (lines 196-241). \<open>response\<close> is the outcome of the remote call behind
  \<^verbatim>\<open>generateLessonContent\<close>.
\<close>

definition fetchLesson :: "App \<Rightarrow> Thrown + RawLesson \<Rightarrow> App \<Rightarrow> App" where
  "fetchLesson r response s =
     (if currentTopic r = None \<or> currentSkill r = None then
        (if currentSkill r \<noteq> None \<and> list_all (\<lambda>isCompleted. isCompleted) (topicsCompleted r)
         then s\<lparr>tutorState := COURSE_COMPLETED\<rparr> else s)
      else
        (let s1 = s\<lparr>isLoading := True, error := None, tutorState := LOADING_LESSON\<rparr>
         in case generateLessonContent response of
              Inl err \<Rightarrow> s1\<lparr>error := Some (error_text err), tutorState := ERROR, isLoading := False\<rparr>
            | Inr (title, sts) \<Rightarrow>
                (let s2 = s1\<lparr>lesson := Some sts, currentStepIndex := 0, incorrectAttempts := 0,
                             currentHint := None, userCode := initialCode sts,
                             conversationHistory := []\<rparr>
                 in (if length sts > 0 then processStep (hd sts) s2
                     else s2\<lparr>tutorState := CORRECT\<rparr>)\<lparr>isLoading := False\<rparr>)))"

text \<open>
  \<^verbatim>\<open>handleSolveDoubt\<close> (lines 583-622). \<open>response\<close> is the outcome of the remote call behind
  \<^verbatim>\<open>generateProblemSolution\<close>.
\<close>

definition handleSolveDoubt :: "string \<Rightarrow> File option \<Rightarrow> Thrown + RawSolution \<Rightarrow> App \<Rightarrow> App" where
  "handleSolveDoubt problemStatement file response s =
     (let s1 = s\<lparr>isLoading := True, error := None, tutorState := LOADING_LESSON,
                 conversationHistory := [], solutionLanguage := None\<rparr>
      in case generateProblemSolution file response of
           Inl err \<Rightarrow>
             s1\<lparr>error := Some (error_text err),
                conversationHistory := [\<lparr>sender = Ai, msg_text = error_text err, isSystem = False\<rparr>],
                tutorState := ERROR, isLoading := False\<rparr>
         | Inr solutionContent \<Rightarrow>
             (speak (Plain (problemExplanation solutionContent))
                (SpeakThen (Plain (solutionExplanation solutionContent))
                   (SpeakThen
                      (Plain ''Aap is solution ko dekh sakte hain, aur agar koi sawaal ho to pooch sakte hain.'')
                      NoCallback ''hi-IN'')
                   ''hi-IN'')
                ''hi-IN''
                (s1\<lparr>solutionLanguage := Some (language solutionContent),
                    userCode := solutionCode solutionContent,
                    conversationHistory :=
                      [\<lparr>sender = Ai, msg_text = problemExplanation solutionContent, isSystem = False\<rparr>,
                       \<lparr>sender = Ai, msg_text = solutionExplanation solutionContent, isSystem = False\<rparr>]\<rparr>))
               \<lparr>tutorState := AWAITING_TASK, isLoading := False\<rparr>)"

text \<open>
  \<^verbatim>\<open>handleStartInterview\<close> (lines 624-673), up to its return: the opening statement is
  spoken by a timer that fires a second later (lines 659-664), which is
  \<open>handleStartInterview_timer\<close>. \<open>response\<close> is the outcome of the remote call behind
  \<^verbatim>\<open>generateInterviewPlan\<close>.
\<close>

definition handleStartInterview :: "File option \<Rightarrow> Thrown + RawPlan \<Rightarrow> App \<Rightarrow> App" where
  "handleStartInterview cvFile response s =
     (let s1 = s\<lparr>isLoading := True, error := None, tutorState := LOADING_LESSON,
                 conversationHistory := [], currentInterviewRound := None, userCode := []\<rparr>
      in case generateInterviewPlan cvFile response of
           Inl err \<Rightarrow> s1\<lparr>error := Some (error_text err), tutorState := ERROR, isLoading := False\<rparr>
         | Inr (rounds, openingStatement) \<Rightarrow>
             s1\<lparr>currentInterviewRound := (if rounds = [] then None else Some (hd rounds)),
                conversationHistory := [\<lparr>sender = Ai, msg_text = openingStatement, isSystem = False\<rparr>],
                isLoading := False\<rparr>)"

definition handleStartInterview_timer :: "string list \<Rightarrow> string \<Rightarrow> App \<Rightarrow> App" where
  "handleStartInterview_timer rounds openingStatement s =
     speak (Plain openingStatement) (SetTutorState AWAITING_TASK)
       (if rounds = [] \<or> hd rounds = [] then ''male'' else hd rounds) s"

text \<open>
  The course set-up view (\<^verbatim>\<open>CoursesView\<close> of the skill selection screen) has its own state;
  \<^verbatim>\<open>handleGenerateOutline\<close> is its submit handler. \<open>response\<close> is the outcome of the remote
  call behind \<^verbatim>\<open>generateCourseOutline\<close>.
\<close>

datatype View = CHOOSING | TUTOR_SETUP | OUTLINE_REVIEW

record CoursesView =
  cv_prompt :: string
  cv_numTopics :: nat
  cv_view :: View
  cv_outline :: "(string \<times> string list) option"
  cv_isLoading :: bool
  cv_error :: "string option"

definition handleGenerateOutline ::
  "CoursesView \<Rightarrow> Thrown + RawOutline \<Rightarrow> CoursesView \<Rightarrow> CoursesView" where
  "handleGenerateOutline r response v =
     (if trim (cv_prompt r) \<noteq> [] then
        (let v1 = v\<lparr>cv_isLoading := True, cv_error := None\<rparr>
         in case generateCourseOutline response of
              Inl err \<Rightarrow>
                v1\<lparr>cv_error := Some (case err of ErrorObject m \<Rightarrow> m
                                     | NonError \<Rightarrow> ''Failed to generate course outline.''),
                   cv_isLoading := False\<rparr>
            | Inr generatedOutline \<Rightarrow>
                v1\<lparr>cv_outline := Some generatedOutline, cv_view := OUTLINE_REVIEW,
                   cv_isLoading := False\<rparr>)
      else v)"

section \<open>The streak update of \<^verbatim>\<open>handleNextStep\<close> (src/App.tsx, lines 263-307)\<close>

text \<open>
  A \<^verbatim>\<open>YYYY-MM-DD\<close> string is modelled by the number of its calendar day (days since
  1970-01-01); \<open>None\<close> is \<^verbatim>\<open>null\<close>. The clock of the browser is the current instant in
  milliseconds since the epoch and, for every instant, the offset of local time from UTC
  in force at that instant, in minutes (positive east of Greenwich).
\<close>

record Clock =
  now :: int
  utcOffset :: "int \<Rightarrow> int"

record ActivityLogEntry =
  log_date :: int
  log_points :: int

record UserProfile =
  points :: int
  currentStreak :: int
  longestStreak :: int
  lastActivityDate :: "int option"
  activityLog :: "ActivityLogEntry list"

text \<open>
  \<^verbatim>\<open>new Date(dateString)\<close> reads a date-only string as midnight UTC of that day;
  \<^verbatim>\<open>toDateString()\<close> gives the calendar day of an instant in local time;
  \<^verbatim>\<open>toISOString().split('T')[0]\<close> gives its calendar day in UTC.
\<close>

definition parse_date :: "int \<Rightarrow> int" where
  "parse_date day = day * 86400000"

definition toDateString :: "Clock \<Rightarrow> int \<Rightarrow> int" where
  "toDateString clock instant = (instant + utcOffset clock instant * 60000) div 86400000"

definition toISODate :: "int \<Rightarrow> int" where
  "toISODate instant = instant div 86400000"

text \<open>
  \<^verbatim>\<open>isYesterday\<close> and \<^verbatim>\<open>isToday\<close> (lines 32-41). \<^verbatim>\<open>setDate(getDate() - 1)\<close> moves to the
  previous local calendar day, whatever offset is in force there.
\<close>

definition isYesterday :: "Clock \<Rightarrow> int \<Rightarrow> bool" where
  "isYesterday clock dateString =
     (toDateString clock (parse_date dateString) = toDateString clock (now clock) - 1)"

definition isToday :: "Clock \<Rightarrow> int \<Rightarrow> bool" where
  "isToday clock dateString =
     (toDateString clock (parse_date dateString) = toDateString clock (now clock))"

text \<open>
  The profile \<^verbatim>\<open>handleNextStep\<close> builds when the last step of a lesson is done
  (\<^verbatim>\<open>updatedUser\<close>, lines 264-307), without its skills and badges. \<open>topicPoints\<close> is
  \<^verbatim>\<open>currentTopic?.points\<close>.
\<close>

definition handleNextStep_profile :: "Clock \<Rightarrow> int option \<Rightarrow> UserProfile \<Rightarrow> UserProfile" where
  "handleNextStep_profile clock topicPoints currentUser =
     (let pointsEarned = (case topicPoints of Some p \<Rightarrow> if p = 0 then 100 else p | None \<Rightarrow> 100);
          today = toISODate (now clock);
          newStreak =
            (case lastActivityDate currentUser of
               None \<Rightarrow> 1
             | Some d \<Rightarrow>
                 if \<not> isToday clock d then
                   (if isYesterday clock d then currentStreak currentUser + 1 else 1)
                 else currentStreak currentUser);
          newLongestStreak = max (longestStreak currentUser) newStreak;
          newActivityLog =
            (case find_index (\<lambda>entry. log_date entry = today) (activityLog currentUser) of
               Some todayLogIndex \<Rightarrow>
                 (activityLog currentUser)
                   [todayLogIndex :=
                      (activityLog currentUser ! todayLogIndex)
                        \<lparr>log_points := log_points (activityLog currentUser ! todayLogIndex) + pointsEarned\<rparr>]
             | None \<Rightarrow> activityLog currentUser @ [\<lparr>log_date = today, log_points = pointsEarned\<rparr>])
      in currentUser
           \<lparr>points := points currentUser + pointsEarned,
            currentStreak := newStreak,
            longestStreak := newLongestStreak,
            activityLog := newActivityLog,
            lastActivityDate := Some today\<rparr>)"

section \<open>The listening gate (src/App.tsx, lines 567-581)\<close>

text \<open>
  The effect reads \<^verbatim>\<open>tutorState\<close>, \<^verbatim>\<open>isLoading\<close> and \<^verbatim>\<open>isSpeaking\<close>, and what the hook
  \<^verbatim>\<open>useSpeechRecognition\<close> returns. The hook's file is not among the sources.

  \<^item> \<open>recognising\<close>: the recogniser is running;
  \<^item> \<open>isListening\<close>: the hook's flag as the last render saw it;
  \<^item> \<open>effectDeps\<close>: the dependency values of the effect run that is installed (\<open>None\<close>
    before the first run); its last component is the \<^verbatim>\<open>isListening\<close> its cleanup closes
    over.
\<close>

record Gate =
  g_tutorState :: TutorState
  g_isLoading :: bool
  g_isSpeaking :: bool
  isSpeechSupported :: bool
  isListening :: bool
  recognising :: bool
  effectDeps :: "(TutorState \<times> bool \<times> bool \<times> bool \<times> bool) option"

text \<open>
  Modelled from the spec: the hook \<^verbatim>\<open>useSpeechRecognition\<close> (hooks/useSpeechRecognition is
  missing from the sources). The spec gives it a boolean "currently listening" flag and
  two control operations, start listening and stop listening, idempotent and safe to call
  redundantly: starting turns the recogniser on, stopping turns it off, and the flag
  reports the recogniser at the next render.
\<close>

definition startListening :: "Gate \<Rightarrow> Gate" where
  "startListening g = g\<lparr>recognising := True\<rparr>"

definition stopListening :: "Gate \<Rightarrow> Gate" where
  "stopListening g = g\<lparr>recognising := False\<rparr>"

text \<open>\<^verbatim>\<open>canListen\<close> (lines 568-569), from the state of the render.\<close>

definition isAwaitingUserInput :: "TutorState \<Rightarrow> bool" where
  "isAwaitingUserInput st = (st = AWAITING_TASK \<or> st = INCORRECT \<or> st = AWAITING_CHOICE)"

definition canListen :: "Gate \<Rightarrow> bool" where
  "canListen g =
     (isAwaitingUserInput (g_tutorState g) \<and> \<not> g_isLoading g \<and> \<not> g_isSpeaking g
      \<and> isSpeechSupported g)"

text \<open>The body of the effect (lines 571-577).\<close>

definition gate_effect :: "Gate \<Rightarrow> Gate" where
  "gate_effect g =
     (if canListen g \<and> \<not> isListening g then startListening g
      else if \<not> canListen g \<and> isListening g then stopListening g
      else g)"

text \<open>
  A render and its commit. The render reads the hook's flag. When a dependency differs
  from the installed run's, React first runs that run's cleanup (lines 578-580, with the
  \<^verbatim>\<open>isListening\<close> it closed over), then the body. The two control functions are taken as
  stable between renders.
\<close>

definition current_deps :: "Gate \<Rightarrow> TutorState \<times> bool \<times> bool \<times> bool \<times> bool" where
  "current_deps g =
     (g_tutorState g, g_isLoading g, isSpeechSupported g, g_isSpeaking g, recognising g)"

definition commit :: "Gate \<Rightarrow> Gate" where
  "commit g =
     (if effectDeps g = Some (current_deps g) then g
      else
        (let rendered = recognising g;
             g1 = (case effectDeps g of
                     Some (_, _, _, _, closedOver) \<Rightarrow> if closedOver then stopListening g else g
                   | None \<Rightarrow> g);
             g2 = gate_effect (g1\<lparr>isListening := rendered\<rparr>)
         in g2\<lparr>effectDeps := Some (current_deps g)\<rparr>))"

text \<open>
  What can happen to the gate: a handler or the speech engine changes one of the three
  state values, or React renders and commits. The recogniser is switched by the two
  control operations only.
\<close>

datatype GateEvent =
    SetTutor TutorState | SetLoading bool | SetSpeaking bool | Commit

fun gate_step :: "Gate \<Rightarrow> GateEvent \<Rightarrow> Gate" where
  "gate_step g (SetTutor st) = g\<lparr>g_tutorState := st\<rparr>"
| "gate_step g (SetLoading b) = g\<lparr>g_isLoading := b\<rparr>"
| "gate_step g (SetSpeaking b) = g\<lparr>g_isSpeaking := b\<rparr>"
| "gate_step g Commit = commit g"

definition gate_run :: "Gate \<Rightarrow> GateEvent list \<Rightarrow> Gate" where
  "gate_run g evs = foldl gate_step g evs"

text \<open>The gate before the first render, in an environment that does or does not support recognition.\<close>

definition gate_mount :: "bool \<Rightarrow> Gate" where
  "gate_mount supported =
     \<lparr>g_tutorState = IDLE, g_isLoading = False, g_isSpeaking = False,
      isSpeechSupported = supported, isListening = False, recognising = False,
      effectDeps = None\<rparr>"

text \<open>Nothing is pending: the installed effect run saw the present values.\<close>

definition settled :: "Gate \<Rightarrow> bool" where
  "settled g = (effectDeps g = Some (current_deps g))"

section \<open>Notions the properties are stated with\<close>

text \<open>
  The quota condition in the words of the specification: the error's message contains
  \<open>429\<close> or \<open>RESOURCE_EXHAUSTED\<close>. A thrown value that is not an \<^verbatim>\<open>Error\<close> has no message.
\<close>

definition is_quota :: "Thrown \<Rightarrow> bool" where
  "is_quota err =
     (case err of
        ErrorObject message \<Rightarrow>
          str_includes message ''429'' \<or> str_includes message ''RESOURCE_EXHAUSTED''
      | NonError \<Rightarrow> False)"







text \<open>
  What every run of the gate keeps: if the recogniser still is as the installed effect
  run saw it, then it is as that run's \<^verbatim>\<open>canListen\<close> asked.
\<close>

definition gate_inv :: "Gate \<Rightarrow> bool" where
  "gate_inv g =
     (case effectDeps g of
        None \<Rightarrow> True
      | Some (t, l, supported, sp, r) \<Rightarrow>
          recognising g \<noteq> r \<or> r = (isAwaitingUserInput t \<and> \<not> l \<and> \<not> sp \<and> supported))"

text \<open>A guided lesson on a code task, after two failed attempts.\<close>

definition tutor_on_code_task :: App where
  "tutor_on_code_task =
     initial_app\<lparr>appMode := TUTOR, tutorState := AWAITING_TASK, currentSkill := Some ''Python'',
       lesson := Some [CODE_TASK ''Print hello'' ''# your code''], currentStepIndex := 0,
       incorrectAttempts := 2,
       currentHint := Some \<lparr>conceptual = ''c'', direct = ''d'', solution = ''s''\<rparr>\<rparr>"

text \<open>A guided course with a topic selected, before its lesson is fetched.\<close>

definition tutor_before_lesson :: App where
  "tutor_before_lesson =
     initial_app\<lparr>appMode := TUTOR, tutorState := LOADING_LESSON, currentSkill := Some ''Python'',
       topicsCompleted := [False], currentTopic := Some ''Loops''\<rparr>"

text \<open>The same lesson after a wrong submission; no chat has taken place yet.\<close>

definition tutor_after_wrong_answer :: App where
  "tutor_after_wrong_answer =
     initial_app\<lparr>appMode := TUTOR, tutorState := INCORRECT, currentSkill := Some ''Python'',
       lesson := Some [CODE_TASK ''Print hello'' ''# your code''], currentStepIndex := 0\<rparr>"

section \<open>Properties of the speech output engine\<close>

lemma cancel_fields:
  "isSpeaking (cancel s) = False"
  "mouthShape (cancel s) = ''X''"
  "utteranceQueue (cancel s) = []"
  "onEndCallback (cancel s) = NoCallback"
  "invoked (cancel s) = invoked s"
  "submitted (cancel s) = submitted s"
  "spokenText (cancel s) = spokenText s"
  "isMuted (cancel s) = isMuted s"
  "tutorState (cancel s) = tutorState s"
  "synthSupported (cancel s) = synthSupported s"
  by (simp_all add: cancel_def synth_cancel_def Let_def)

text \<open>
  A call of \<^verbatim>\<open>speak\<close> on an engine that is not muted, with at least one non-blank
  segment, starts the queue: the first utterance goes to the browser, the others wait,
  and no callback runs.
\<close>

lemma speak_starts_queue:
  assumes "\<not> isMuted s" and "synthSupported s" and "segments_of inp g \<noteq> []"
  shows "speak inp cb g s =
     synth_speak (mk_utterance (hd (segments_of inp g)))
       ((cancel s)\<lparr>spokenText := concat (map seg_text (segments_of inp g)),
          onEndCallback := cb, isSpeaking := True, mouthShape := ''A'',
          utteranceQueue := map mk_utterance (tl (segments_of inp g))\<rparr>)"
  using assms by (simp add: speak.simps hd_map map_tl)

lemma speak_starts_fields:
  assumes "\<not> isMuted s" and "synthSupported s" and "segments_of inp g \<noteq> []"
  shows "spokenText (speak inp cb g s) = concat (map seg_text (segments_of inp g))"
    and "isMuted (speak inp cb g s) = False"
    and "synthQueue (speak inp cb g s) = [mk_utterance (hd (segments_of inp g))]"
    and "isSpeaking (speak inp cb g s) = True"
    and "tutorState (speak inp cb g s) = tutorState s"
    and "onEndCallback (speak inp cb g s) = cb"
  using assms
  by (simp_all add: speak_starts_queue synth_speak_def cancel_def synth_cancel_def Let_def)

lemma segments_of_plain:
  "nonblank t \<Longrightarrow>
   segments_of (Plain t) g = [\<lparr>seg_text = t, seg_lang = (if g = ''hi-IN'' then Hi else En)\<rparr>]"
  by (simp add: segments_of_def)

text \<open>
  What a call of \<^verbatim>\<open>speak\<close> that begins playback does when nothing interferes, that is,
  when it is followed by nothing but the end of each of its utterances. After \<open>k\<close> utterances
  have ended, with \<open>k\<close> less than the number of segments, exactly segment \<open>k\<close> is in
  flight, the segments up to it have been submitted in the order given, the callback is
  still pending and has not run.
\<close>

lemma ended_while_queued:
  assumes "synthQueue s = [u]" and "utteranceQueue s = v # q"
  shows "utterance_ended s =
         s\<lparr>synthQueue := [v], submitted := submitted s @ [v], utteranceQueue := q\<rparr>"
  using assms by (simp add: utterance_ended_def synth_speak_def)

lemma ended_last:
  assumes "synthQueue s = [u]" and "utteranceQueue s = []"
  shows "utterance_ended s =
         (invoke (onEndCallback s) (s\<lparr>synthQueue := [], isSpeaking := False, mouthShape := ''X''\<rparr>))
           \<lparr>onEndCallback := NoCallback\<rparr>"
  using assms by (simp add: utterance_ended_def)

lemma ended_idle: "synthQueue s = [] \<Longrightarrow> utterance_ended s = s"
  by (simp add: utterance_ended_def)

lemma playing:
  assumes "synthQueue s = [u]" and "k \<le> length (utteranceQueue s)"
  shows "(utterance_ended ^^ k) s =
         s\<lparr>synthQueue := [(u # utteranceQueue s) ! k],
           submitted := submitted s @ take k (utteranceQueue s),
           utteranceQueue := drop k (utteranceQueue s)\<rparr>"
  using assms
proof (induction k arbitrary: s u)
  case 0
  then show ?case by simp
next
  case (Suc k)
  from Suc.prems obtain v q where q: "utteranceQueue s = v # q"
    by (cases "utteranceQueue s") auto
  let ?s = "s\<lparr>synthQueue := [v], submitted := submitted s @ [v], utteranceQueue := q\<rparr>"
  have step: "utterance_ended s = ?s"
    using Suc.prems q by (simp add: ended_while_queued)
  have "(utterance_ended ^^ Suc k) s = (utterance_ended ^^ k) (utterance_ended s)"
    by (simp add: funpow_swap1)
  also have "\<dots> = (utterance_ended ^^ k) ?s"
    by (simp add: step)
  also have "\<dots> = ?s\<lparr>synthQueue := [(v # utteranceQueue ?s) ! k],
           submitted := submitted ?s @ take k (utteranceQueue ?s),
           utteranceQueue := drop k (utteranceQueue ?s)\<rparr>"
    using Suc.prems q by (intro Suc.IH) simp_all
  finally show ?case
    using q by simp
qed

lemma speak_plays_in_order:
  assumes "\<not> isMuted s" and "synthSupported s" and "segments_of inp g \<noteq> []"
    and "k < length (segments_of inp g)"
  shows "synthQueue ((utterance_ended ^^ k) (speak inp cb g s)) = [mk_utterance (segments_of inp g ! k)]
       \<and> submitted ((utterance_ended ^^ k) (speak inp cb g s)) =
           submitted s @ map mk_utterance (take (Suc k) (segments_of inp g))
       \<and> onEndCallback ((utterance_ended ^^ k) (speak inp cb g s)) = cb
       \<and> invoked ((utterance_ended ^^ k) (speak inp cb g s)) = invoked s
       \<and> isSpeaking ((utterance_ended ^^ k) (speak inp cb g s))"
proof -
  let ?segs = "segments_of inp g"
  let ?s0 = "speak inp cb g s"
  have q0: "synthQueue ?s0 = [mk_utterance (hd ?segs)]"
    using assms(1-3) by (rule speak_starts_fields)
  have u0: "utteranceQueue ?s0 = map mk_utterance (tl ?segs)"
    using assms(1-3) by (simp add: speak_starts_queue synth_speak_def)
  have sub0: "submitted ?s0 = submitted s @ [mk_utterance (hd ?segs)]"
    using assms(1-3) by (simp add: speak_starts_queue synth_speak_def cancel_fields)
  have inv0: "invoked ?s0 = invoked s"
    using assms(1-3) by (simp add: speak_starts_queue synth_speak_def cancel_fields)
  have k: "k \<le> length (utteranceQueue ?s0)"
    using assms(4) by (simp add: u0)
  from assms(3) obtain x xs where segs: "?segs = x # xs"
    by (cases ?segs) auto
  have "(mk_utterance x # map mk_utterance xs) ! k = mk_utterance ((x # xs) ! k)"
    using assms(4) segs by (metis list.simps(9) nth_map)
  moreover have "mk_utterance x # take k (map mk_utterance xs) =
      map mk_utterance (take (Suc k) (x # xs))"
    by (simp add: take_map)
  ultimately show ?thesis
    using playing [OF q0 k] u0 sub0 inv0 speak_starts_fields(4,6) [OF assms(1-3), of cb] segs
    by simp
qed

text \<open>
  When the last utterance has ended, a callback from outside has been invoked once; the
  browser's queue is empty, so no further end can come and invoke it again. All
  segments have been submitted, in order.
\<close>

lemma speak_completes_once:
  assumes "\<not> isMuted s" and "synthSupported s" and "segments_of inp g \<noteq> []"
  shows "invoked ((utterance_ended ^^ (length (segments_of inp g) + m)) (speak inp (External c) g s))
           = invoked s @ [c]
       \<and> synthQueue ((utterance_ended ^^ (length (segments_of inp g) + m)) (speak inp (External c) g s))
           = []
       \<and> submitted ((utterance_ended ^^ (length (segments_of inp g) + m)) (speak inp (External c) g s))
           = submitted s @ map mk_utterance (segments_of inp g)
       \<and> \<not> isSpeaking ((utterance_ended ^^ (length (segments_of inp g) + m)) (speak inp (External c) g s))"
proof -
  let ?segs = "segments_of inp g"
  define n where "n = length ?segs - 1"
  define s0 where "s0 = speak inp (External c) g s"
  define s1 where "s1 = (utterance_ended ^^ n) s0"
  define s2 where "s2 = utterance_ended s1"
  from assms(3) have n: "n < length ?segs" and len: "length ?segs = Suc n"
    by (cases ?segs; simp add: n_def)+
  have q0: "synthQueue s0 = [mk_utterance (hd ?segs)]"
    unfolding s0_def using assms(1-3) by (rule speak_starts_fields)
  have u0: "utteranceQueue s0 = map mk_utterance (tl ?segs)"
    unfolding s0_def using assms(1-3) by (simp add: speak_starts_queue synth_speak_def)
  have k: "n \<le> length (utteranceQueue s0)"
    by (simp add: u0 n_def)
  have uq1: "utteranceQueue s1 = []"
    unfolding s1_def using playing [OF q0 k] u0 by (simp add: n_def)
  from speak_plays_in_order [OF assms n, of "External c"]
  have f1: "synthQueue s1 = [mk_utterance (?segs ! n)]"
    and sub1: "submitted s1 = submitted s @ map mk_utterance (take (Suc n) ?segs)"
    and cb1: "onEndCallback s1 = External c" and inv1: "invoked s1 = invoked s"
    unfolding s1_def s0_def by blast+
  have s2: "s2 = (invoke (External c) (s1\<lparr>synthQueue := [], isSpeaking := False, mouthShape := ''X''\<rparr>))
                   \<lparr>onEndCallback := NoCallback\<rparr>"
    unfolding s2_def using ended_last [OF f1 uq1] cb1 by simp
  have idle: "synthQueue s2 = []"
    by (simp add: s2)
  have stays: "(utterance_ended ^^ j) s2 = s2" for j
    by (induction j) (simp_all add: ended_idle [OF idle])
  have "(utterance_ended ^^ (length ?segs + m)) s0 =
        (utterance_ended ^^ m) ((utterance_ended ^^ Suc n) s0)"
    by (simp only: len funpow_add add.commute [of _ m] o_apply)
  also have "(utterance_ended ^^ Suc n) s0 = s2"
    by (simp add: s2_def s1_def)
  finally have e: "(utterance_ended ^^ (length ?segs + m)) s0 = s2"
    by (simp add: stays)
  have "take (Suc n) ?segs = ?segs"
    using len by simp
  with s2 sub1 inv1 have "invoked s2 = invoked s @ [c] \<and> synthQueue s2 = []
      \<and> submitted s2 = submitted s @ map mk_utterance ?segs \<and> \<not> isSpeaking s2"
    by simp
  then show ?thesis
    unfolding e [unfolded s0_def, symmetric] .
qed

text \<open>
  The two lemmas above are about runs in which every end the browser reports is the end
  of the utterance it was speaking. The comment at lines 60-62 expects the browser to
  report an end for the utterance that a \<^verbatim>\<open>cancel\<close> drops. If such a late end arrives
  after a new \<^verbatim>\<open>speak\<close>, its handler (line 121) runs \<^verbatim>\<open>processQueue\<close> on the new queue:
  below, the second segment is submitted while the first is in flight, and the callback
  runs when the first ends, with the second still in flight.
\<close>

lemma late_end_of_a_dropped_utterance:
  "(let s0 = speak (Plain ''old'') NoCallback ''hi-IN'' initial_app;
        s1 = speak (Segments [\<lparr>seg_text = ''a'', seg_lang = En\<rparr>, \<lparr>seg_text = ''b'', seg_lang = En\<rparr>])
               (External 7) ''hi-IN'' s0;
        s2 = processQueue s1;
        s3 = utterance_ended s2
    in map utt_text (synthQueue s1) = [''a'']
       \<and> map utt_text (synthQueue s2) = [''a'', ''b'']
       \<and> map utt_text (synthQueue s3) = [''b'']
       \<and> invoked s3 = [7])"
  by (simp add: speak.simps initial_app_def utterance_ended_def segments_of_def nonblank_def
      trim_def is_space_def mk_utterance_def cancel_def synth_cancel_def synth_speak_def
      preprocessTextForSpeech_def Let_def match_decimal_def is_digit_def)

text \<open>
  C1. The claim: every call of \<^verbatim>\<open>speak\<close> that begins playback has its segments handed to
  the synthesizer in order, one at a time, and its completion callback invoked exactly
  once, after the last segment has finished.

  The code does not do this for a call of \<^verbatim>\<open>speak\<close> made from inside a completion
  callback, as \<^verbatim>\<open>handleSolveDoubt\<close> does (App.tsx, lines 607-611). \<^verbatim>\<open>processQueue\<close> invokes
  the stored callback and clears the stored callback afterwards (lines 48-49), so the
  callback the inner call has just stored is erased. Here \<^verbatim>\<open>speak("a", () => speak("b",
  cb7))\<close> runs on a fresh engine and both utterances finish: "b" begins playback after
  "a", its callback is already gone while "b" is being spoken, and it has not been
  invoked when everything has finished.
\<close>

theorem speak_inside_callback_loses_its_callback:
  "(let s1 = speak (Plain ''a'') (SpeakThen (Plain ''b'') (External 7) ''hi-IN'') ''hi-IN'' initial_app;
        s2 = utterance_ended s1;
        s3 = utterance_ended s2
    in synthQueue s1 = [\<lparr>utt_text = ''a'', utt_lang = ''hi-IN''\<rparr>]
       \<and> synthQueue s2 = [\<lparr>utt_text = ''b'', utt_lang = ''hi-IN''\<rparr>]
       \<and> isSpeaking s2 = True
       \<and> onEndCallback s2 = NoCallback
       \<and> map utt_text (submitted s3) = [''a'', ''b'']
       \<and> synthQueue s3 = []
       \<and> isSpeaking s3 = False
       \<and> invoked s3 = [])"
  by (simp add: speak.simps initial_app_def utterance_ended_def segments_of_def nonblank_def
      trim_def is_space_def mk_utterance_def cancel_def synth_cancel_def synth_speak_def
      preprocessTextForSpeech_def Let_def match_decimal_def is_digit_def)

text \<open>
  Once the queue is empty and no callback is stored, utterances that end change neither
  the record of invoked callbacks nor the orchestrator's state.
\<close>

lemma ended_without_callback:
  assumes "utteranceQueue s = []" and "onEndCallback s = NoCallback"
  shows "utteranceQueue (utterance_ended s) = [] \<and> onEndCallback (utterance_ended s) = NoCallback
       \<and> invoked (utterance_ended s) = invoked s \<and> tutorState (utterance_ended s) = tutorState s"
  using assms by (simp add: utterance_ended_def)

lemma ends_after_cancel:
  "utteranceQueue ((utterance_ended ^^ k) (cancel s)) = []
   \<and> onEndCallback ((utterance_ended ^^ k) (cancel s)) = NoCallback
   \<and> invoked ((utterance_ended ^^ k) (cancel s)) = invoked s
   \<and> tutorState ((utterance_ended ^^ k) (cancel s)) = tutorState s"
proof (induction k)
  case 0
  show ?case
    by (simp add: cancel_fields)
next
  case (Suc k)
  then show ?case
    using ended_without_callback [of "(utterance_ended ^^ k) (cancel s)"] by simp
qed

text \<open>
  C3. Whatever the state of the engine (an empty queue and a silent browser included),
  \<^verbatim>\<open>cancel\<close> leaves the speaking flag false, the mouth shape \<open>X\<close> and the queue empty, and it
  forgets the pending completion callback without invoking it: no callback has been
  recorded, the orchestrator's state is untouched, and the state after \<^verbatim>\<open>cancel\<close> is the
  same whichever callback was pending. Nothing that follows invokes it either: not any
  number of utterances ending, and not a late run of \<^verbatim>\<open>processQueue\<close> (the end event the
  comment at lines 60-62 expects from the browser). A second \<^verbatim>\<open>cancel\<close> changes nothing.
  \<^verbatim>\<open>cancel\<close> has no failing branch: the only call that could throw, on the browser's
  synthesizer, is guarded by its existence.
\<close>

theorem cancel_resets_engine:
  "isSpeaking (cancel s) = False \<and> mouthShape (cancel s) = ''X'' \<and> utteranceQueue (cancel s) = []
   \<and> onEndCallback (cancel s) = NoCallback
   \<and> invoked (cancel s) = invoked s \<and> tutorState (cancel s) = tutorState s
   \<and> submitted (cancel s) = submitted s
   \<and> cancel (s\<lparr>onEndCallback := c\<rparr>) = cancel s
   \<and> cancel (cancel s) = cancel s
   \<and> invoked ((utterance_ended ^^ k) (cancel s)) = invoked s
   \<and> tutorState ((utterance_ended ^^ k) (cancel s)) = tutorState s
   \<and> invoked (processQueue (cancel s)) = invoked s
   \<and> tutorState (processQueue (cancel s)) = tutorState s"
proof -
  have "cancel (s\<lparr>onEndCallback := c\<rparr>) = cancel s \<and> cancel (cancel s) = cancel s
      \<and> invoked (processQueue (cancel s)) = invoked s
      \<and> tutorState (processQueue (cancel s)) = tutorState s"
    by (simp add: cancel_def synth_cancel_def Let_def)
  with ends_after_cancel [of k s] show ?thesis
    by (simp add: cancel_fields)
qed

text \<open>
  C10. \<^verbatim>\<open>cancel\<close> changes neither the published caption nor the mute flag. In particular,
  after a call of \<^verbatim>\<open>speak\<close> that started the queue, the caption it published (the texts of
  its non-blank segments, concatenated) is still there after \<^verbatim>\<open>cancel\<close>, and the engine is
  still not muted.
\<close>

theorem cancel_keeps_caption_and_mute:
  "spokenText (cancel s) = spokenText s \<and> isMuted (cancel s) = isMuted s
   \<and> (\<not> isMuted s \<and> synthSupported s \<and> segments_of inp g \<noteq> [] \<longrightarrow>
        spokenText (cancel (speak inp cb g s)) = concat (map seg_text (segments_of inp g))
        \<and> isMuted (cancel (speak inp cb g s)) = False)"
  by (simp add: cancel_fields speak_starts_fields)

lemma segments_of_task_intro:
  "segments_of
     (Segments [\<lparr>seg_text = ''Ab, aapki baari. '', seg_lang = Hi\<rparr>,
                \<lparr>seg_text = '' '', seg_lang = En\<rparr>,
                \<lparr>seg_text = ''Print 2.5'', seg_lang = En\<rparr>]) ''hi-IN'' =
     [\<lparr>seg_text = ''Ab, aapki baari. '', seg_lang = Hi\<rparr>,
      \<lparr>seg_text = ''Print 2.5'', seg_lang = En\<rparr>]"
  by (simp add: segments_of_def nonblank_def trim_def is_space_def)

theorem cancel_keeps_caption_and_mute_witness:
  "spokenText (cancel (speak
      (Segments [\<lparr>seg_text = ''Ab, aapki baari. '', seg_lang = Hi\<rparr>,
                 \<lparr>seg_text = '' '', seg_lang = En\<rparr>,
                 \<lparr>seg_text = ''Print 2.5'', seg_lang = En\<rparr>])
      (External 1) ''hi-IN'' initial_app))
     = ''Ab, aapki baari. Print 2.5''
   \<and> isMuted (cancel (speak
      (Segments [\<lparr>seg_text = ''Ab, aapki baari. '', seg_lang = Hi\<rparr>,
                 \<lparr>seg_text = '' '', seg_lang = En\<rparr>,
                 \<lparr>seg_text = ''Print 2.5'', seg_lang = En\<rparr>])
      (External 1) ''hi-IN'' initial_app)) = False"
  using cancel_keeps_caption_and_mute
    [of initial_app
        "Segments [\<lparr>seg_text = ''Ab, aapki baari. '', seg_lang = Hi\<rparr>,
                   \<lparr>seg_text = '' '', seg_lang = En\<rparr>,
                   \<lparr>seg_text = ''Print 2.5'', seg_lang = En\<rparr>]"
        "''hi-IN''" "External 1"]
  by (simp add: segments_of_task_intro initial_app_def)

section \<open>Properties of the text normalisation\<close>

lemma takeWhile_digits_dot:
  "list_all is_digit ip \<Longrightarrow> takeWhile is_digit (ip @ CHR ''.'' # r) = ip"
  "list_all is_digit ip \<Longrightarrow> dropWhile is_digit (ip @ CHR ''.'' # r) = CHR ''.'' # r"
  by (induction ip) (auto simp: is_digit_def)

lemma takeWhile_digits_rest:
  "list_all is_digit fp \<Longrightarrow> rest = [] \<or> \<not> is_digit (hd rest) \<Longrightarrow>
   takeWhile is_digit (fp @ rest) = fp"
  "list_all is_digit fp \<Longrightarrow> rest = [] \<or> \<not> is_digit (hd rest) \<Longrightarrow>
   dropWhile is_digit (fp @ rest) = rest"
  by (induction fp) (cases rest; auto)+

lemma match_decimal_at:
  assumes "list_all is_digit ip" "ip \<noteq> []" "list_all is_digit fp" "fp \<noteq> []"
    and "rest = [] \<or> \<not> is_digit (hd rest)"
  shows "match_decimal (ip @ CHR ''.'' # fp @ rest) = Some (ip, fp, rest)"
  using assms by (simp add: match_decimal_def takeWhile_digits_dot takeWhile_digits_rest)

lemma replace_decimals_at:
  assumes "list_all is_digit ip" "ip \<noteq> []" "list_all is_digit fp" "fp \<noteq> []"
    and "rest = [] \<or> \<not> is_digit (hd rest)"
  shows "replace_decimals (ip @ CHR ''.'' # fp @ rest) =
         ip @ '' point '' @ join_spaces fp @ replace_decimals rest"
proof -
  from assms(2) obtain c cs where ip: "ip = c # cs"
    by (cases ip) auto
  have "replace_decimals (c # (cs @ CHR ''.'' # fp @ rest)) =
        ip @ '' point '' @ join_spaces fp @ replace_decimals rest"
    using match_decimal_at [OF assms] unfolding ip by simp
  then show ?thesis
    by (simp add: ip)
qed

lemma replace_decimals_skip:
  "list_all (\<lambda>c. \<not> is_digit c) pre \<Longrightarrow> replace_decimals (pre @ t) = pre @ replace_decimals t"
  by (induction pre) (auto simp: match_decimal_def)

text \<open>
  The scan can be cut behind any character that is neither a digit nor a dot: no match
  reaches across such a character.
\<close>

lemma takeWhile_before_nondigit:
  assumes "xs \<noteq> []" and "\<not> is_digit (last xs)"
  shows "takeWhile is_digit (xs @ ys) = takeWhile is_digit xs"
    and "dropWhile is_digit (xs @ ys) = dropWhile is_digit xs @ ys"
    and "dropWhile is_digit xs \<noteq> []"
    and "last (dropWhile is_digit xs) = last xs"
proof -
  from assms have m: "last xs \<in> set xs"
    by simp
  show "takeWhile is_digit (xs @ ys) = takeWhile is_digit xs"
    using m assms(2) by (rule takeWhile_append1)
  show "dropWhile is_digit (xs @ ys) = dropWhile is_digit xs @ ys"
    using m assms(2) by (rule dropWhile_append1)
  show ne: "dropWhile is_digit xs \<noteq> []"
    using m assms(2) by (auto simp: dropWhile_eq_Nil_conv)
  show "last (dropWhile is_digit xs) = last xs"
    using ne by (metis last_appendR takeWhile_dropWhile_id)
qed

lemma match_decimal_append:
  assumes "xs \<noteq> []" and "\<not> is_digit (last xs)" and "last xs \<noteq> CHR ''.''"
  shows "match_decimal (xs @ ys) =
           map_option (\<lambda>(ip, fp, rest). (ip, fp, rest @ ys)) (match_decimal xs)"
    and "match_decimal xs = Some (ip, fp, rest) \<Longrightarrow> rest \<noteq> [] \<and> last rest = last xs"
proof -
  note t = takeWhile_before_nondigit [OF assms(1,2)]
  obtain c r where d: "dropWhile is_digit xs = c # r"
    using t(3) by (cases "dropWhile is_digit xs") auto
  have lastd: "last (c # r) = last xs"
    using t(4) d by simp
  show "match_decimal (xs @ ys) =
           map_option (\<lambda>(ip, fp, rest). (ip, fp, rest @ ys)) (match_decimal xs)"
  proof (cases "c = CHR ''.''")
    case False
    then show ?thesis
      by (cases "takeWhile is_digit xs = []") (simp_all add: match_decimal_def t(1,2) d)
  next
    case True
    with lastd assms(3) have r: "r \<noteq> []"
      by auto
    with lastd have "\<not> is_digit (last r)"
      using assms(2) by simp
    note tr = takeWhile_before_nondigit [OF r this]
    show ?thesis
      using True
      by (cases "takeWhile is_digit xs = []"; cases "takeWhile is_digit r = []")
         (simp_all add: match_decimal_def t(1,2) d tr(1,2))
  qed
  show "rest \<noteq> [] \<and> last rest = last xs" if "match_decimal xs = Some (ip, fp, rest)"
  proof -
    from that d have c: "c = CHR ''.''" and rest: "rest = dropWhile is_digit r"
      by (auto simp: match_decimal_def Let_def split: if_splits)
    with lastd assms(3) have r: "r \<noteq> []"
      by auto
    with lastd have nd: "\<not> is_digit (last r)" and lr: "last r = last xs"
      using assms(2) by simp_all
    note tr = takeWhile_before_nondigit [OF r nd]
    show ?thesis
      using tr(3,4) rest lr by simp
  qed
qed

lemma replace_decimals_append:
  assumes "xs = [] \<or> (\<not> is_digit (last xs) \<and> last xs \<noteq> CHR ''.'')"
  shows "replace_decimals (xs @ ys) = replace_decimals xs @ replace_decimals ys"
  using assms
proof (induction xs rule: replace_decimals.induct)
  case 1
  show ?case
    by simp
next
  case (2 c cs)
  then have nd: "\<not> is_digit (last (c # cs))" and ndot: "last (c # cs) \<noteq> CHR ''.''"
    by simp_all
  note m = match_decimal_append [OF _ nd ndot, simplified]
  show ?case
  proof (cases "match_decimal (c # cs)")
    case None
    have "cs = [] \<or> (\<not> is_digit (last cs) \<and> last cs \<noteq> CHR ''.'')"
      using nd ndot by (cases cs) auto
    with 2(1) [OF None]
    have "replace_decimals (cs @ ys) = replace_decimals cs @ replace_decimals ys"
      by simp
    with None m(1) [of ys] show ?thesis
      by simp
  next
    case (Some a)
    obtain ip fp rest where a: "a = (ip, fp, rest)"
      by (cases a) auto
    from m(2) [of ip fp rest] Some a have rest: "rest \<noteq> []" "last rest = last (c # cs)"
      by simp_all
    then have "rest = [] \<or> (\<not> is_digit (last rest) \<and> last rest \<noteq> CHR ''.'')"
      using nd ndot by simp
    with 2(2) [OF Some [unfolded a] refl refl]
    have "replace_decimals (rest @ ys) = replace_decimals rest @ replace_decimals ys"
      by simp
    with Some a m(1) [of ys] show ?thesis
      by simp
  qed
qed

lemma has_use_yuuzh:
  "has_use (CHR ''y'' # CHR ''u'' # CHR ''u'' # CHR ''z'' # CHR ''h'' # t) = has_use t"
  by (cases t rule: has_use.cases) (auto simp: use_at_def)

lemma replace_use_head: "replace_use (c # t) = c' # t' \<Longrightarrow> c' = c \<or> c' = CHR ''y''"
  by (cases "c # t" rule: replace_use.cases) (auto split: if_splits)

text \<open>After the second replacement no occurrence of the three letters is left.\<close>

lemma replace_use_no_use: "\<not> has_use (replace_use s)"
proof (induction s rule: replace_use.induct)
  case (1 a b c rest)
  show ?case
  proof (cases "use_at a b c")
    case True
    with 1 show ?thesis
      by (simp add: has_use_yuuzh del: has_use.simps)
  next
    case False
    have front: "\<not> use_at a x y" if e: "replace_use (b # c # rest) = x # y # t" for x y t
    proof (cases rest)
      case Nil
      with e False show ?thesis by simp
    next
      case (Cons d rest')
      show ?thesis
      proof (cases "use_at b c d")
        case True
        with e Cons show ?thesis by (auto simp: use_at_def)
      next
        case no_match: False
        with e Cons have x: "x = b" and yt: "replace_use (c # d # rest') = y # t"
          by auto
        from replace_use_head [OF yt] have "y = c \<or> y = CHR ''y''" .
        with False x show ?thesis by (auto simp: use_at_def)
      qed
    qed
    from False 1 have ih: "\<not> has_use (replace_use (b # c # rest))"
      by simp
    show ?thesis
    proof (cases "replace_use (b # c # rest)")
      case Nil
      with False show ?thesis by simp
    next
      case (Cons x xs)
      show ?thesis
      proof (cases xs)
        case Nil
        with Cons False show ?thesis by simp
      next
        case tail: (Cons y t)
        with Cons front [of x y t] ih False show ?thesis by simp
      qed
    qed
  qed
qed simp_all

text \<open>
  The fractional part is spoken digit by digit: every digit but the last is followed by
  one space.
\<close>

lemma join_spaces_digit_by_digit:
  "fp \<noteq> [] \<Longrightarrow> join_spaces fp = concat (map (\<lambda>c. [c, CHR '' '']) (butlast fp)) @ [last fp]"
  by (induction fp rule: join_spaces.induct) simp_all

text \<open>
  What the normalisation does in general. Every decimal \<open>digits.digits\<close> that stands at
  the start of the text or behind a character that is neither a digit nor a dot, and is
  not followed by a further digit, is rewritten with its fractional part digit by digit;
  the text before and after it is normalised on its own. The letters \<open>use\<close>, in either
  case, are replaced wherever the scan meets them, whatever stands before or after: no
  occurrence is left in the synthesized text. Both rewrites reach the utterance only:
  the caption \<^verbatim>\<open>speak\<close> publishes is the text as given.
\<close>

lemma normalisation_rewrites:
  assumes "list_all is_digit ip" and "ip \<noteq> []" and "list_all is_digit fp" and "fp \<noteq> []"
    and "pre = [] \<or> (\<not> is_digit (last pre) \<and> last pre \<noteq> CHR ''.'')"
    and "rest = [] \<or> \<not> is_digit (hd rest)"
    and "use_at a b c"
    and "\<not> isMuted s" and "synthSupported s" and "nonblank t"
  shows "replace_decimals (pre @ ip @ ''.'' @ fp @ rest) =
           replace_decimals pre @ ip @ '' point '' @
           concat (map (\<lambda>c. [c, CHR '' '']) (butlast fp)) @ [last fp] @ replace_decimals rest
       \<and> replace_use (a # b # c # after) = ''yuuzh'' @ replace_use after
       \<and> \<not> has_use (preprocessTextForSpeech t)
       \<and> map utt_text (synthQueue (speak (Plain t) cb g s)) = [preprocessTextForSpeech t]
       \<and> spokenText (speak (Plain t) cb g s) = t"
proof -
  have dec: "replace_decimals (pre @ ip @ ''.'' @ fp @ rest) =
           replace_decimals pre @ ip @ '' point '' @
           concat (map (\<lambda>c. [c, CHR '' '']) (butlast fp)) @ [last fp] @ replace_decimals rest"
    using assms(1-6) join_spaces_digit_by_digit [OF assms(4)]
    by (simp add: replace_decimals_append replace_decimals_at)
  have use: "replace_use (a # b # c # after) = ''yuuzh'' @ replace_use after"
    using assms(7) by simp
  have none: "\<not> has_use (preprocessTextForSpeech t)"
    by (simp add: preprocessTextForSpeech_def replace_use_no_use)
  have segs: "segments_of (Plain t) g \<noteq> []"
    using assms(10) by (simp add: segments_of_plain)
  have utt: "map utt_text (synthQueue (speak (Plain t) cb g s)) = [preprocessTextForSpeech t]"
    using assms(8-10) segs
    by (simp add: speak_starts_fields segments_of_plain mk_utterance_def)
  have cap: "spokenText (speak (Plain t) cb g s) = t"
    using assms(8-10) segs
    by (simp add: speak_starts_fields segments_of_plain)
  from dec use none utt cap show ?thesis
    by blast
qed

text \<open>
  C8. The claim: the word \<open>use\<close> is substituted only where it occurs as a whole word,
  occurrences inside other words are not rewritten. The expression \<^verbatim>\<open>/use/gi\<close> (line 17)
  has no word boundary, so the three letters are replaced inside any word: \<open>because of
  the house\<close> is synthesized as \<open>becayuuzh of the hoyuuzh\<close>, \<open>user\<close> as \<open>yuuzhr\<close>. The rest
  of the claim is what the code does: \<open>2.5 use it\<close> is synthesized as \<open>2 point 5 yuuzh
  it\<close>, a longer fraction digit by digit (\<open>3.14\<close> as \<open>3 point 1 4\<close>), and the caption stays
  the text as given.
\<close>

theorem use_is_replaced_inside_words:
  "preprocessTextForSpeech ''because of the house'' = ''becayuuzh of the hoyuuzh''
   \<and> preprocessTextForSpeech ''user'' = ''yuuzhr''
   \<and> preprocessTextForSpeech ''2.5 use it'' = ''2 point 5 yuuzh it''
   \<and> preprocessTextForSpeech ''3.14'' = ''3 point 1 4''
   \<and> spokenText (speak (Plain ''2.5 use it'') NoCallback ''hi-IN'' initial_app) = ''2.5 use it''
   \<and> map utt_text (synthQueue (speak (Plain ''2.5 use it'') NoCallback ''hi-IN'' initial_app))
       = [''2 point 5 yuuzh it'']"
  by (simp add: speak.simps initial_app_def segments_of_def nonblank_def trim_def is_space_def
      mk_utterance_def cancel_def synth_cancel_def synth_speak_def preprocessTextForSpeech_def
      match_decimal_def is_digit_def use_at_def Let_def)

section \<open>Properties of the content provider\<close>

lemma handleApiError_two_messages:
  "handleApiError err context d = (if is_quota err then QUOTA_MESSAGE else d)"
  by (simp add: handleApiError_def is_quota_def split: Thrown.splits)

text \<open>
  Every failure of a guarded provider function, whether of the remote call, of
  \<^verbatim>\<open>JSON.parse\<close> or of a format check, reaches the caller as one of the two messages.
\<close>

lemma guarded_failure:
  "guarded context d body = Inl e \<Longrightarrow>
   \<exists>err. body = Inl err \<and> e = ErrorObject (if is_quota err then QUOTA_MESSAGE else d)"
  by (auto simp: guarded_def handleApiError_two_messages split: sum.splits)













text \<open>
  What the filter of \<^verbatim>\<open>generateLessonContent\<close> ensures: a lesson it returns is not empty,
  and each multiple-choice step in it has a number as index, smaller than the number of
  its choices. If the filter leaves nothing of a non-empty list, the call fails.
\<close>

lemma step_is_kept_upper:
  "step_is_kept (MULTIPLE_CHOICE q choices idx fb) \<Longrightarrow>
   \<exists>i cs. idx = JNumber i \<and> choices = Some cs \<and> i < of_nat (length cs)"
  by (auto split: JsValue.splits option.splits)

lemma lesson_steps_kept:
  assumes "generateLessonContent response = Inr (title, sts)"
  shows "sts \<noteq> [] \<and> list_all step_is_kept sts"
  using assms
  by (auto simp: generateLessonContent_def guarded_def lesson_body_def list_all_iff
      split: sum.splits option.splits if_splits)

lemma lesson_all_filtered_fails:
  assumes "steps parsed = Some sts" and "sts \<noteq> []" and "filter step_is_kept sts = []"
  shows "\<exists>e. generateLessonContent (Inr parsed) = Inl e"
  using assms
  by (auto simp: generateLessonContent_def guarded_def lesson_body_def
      split: sum.splits option.splits if_splits)

text \<open>
  C4. The claim: a multiple-choice step whose correct index is missing or out of range
  for its choices never reaches the user. The filter tests the index against the length
  of the choices only (line 1597), so a negative index passes: the lesson below comes
  back unchanged, with a step whose correct index \<open>-1\<close> is no position of its two
  choices.
\<close>

theorem negative_index_step_is_kept:
  "generateLessonContent
     (Inr \<lparr>topicTitle = Some ''Loops'',
           steps = Some [MULTIPLE_CHOICE ''Which one?'' (Some [''for'', ''while''])
                           (JNumber (- 1)) ''Sahi!'']\<rparr>)
   = Inr (''Loops'',
          [MULTIPLE_CHOICE ''Which one?'' (Some [''for'', ''while'']) (JNumber (- 1)) ''Sahi!''])
   \<and> \<not> index_in_range
         (MULTIPLE_CHOICE ''Which one?'' (Some [''for'', ''while'']) (JNumber (- 1)) ''Sahi!'')"
  by (simp add: generateLessonContent_def guarded_def lesson_body_def)

text \<open>An index that is no whole number passes the filter as well.\<close>

lemma fractional_index_passes_the_filter:
  "step_is_kept (MULTIPLE_CHOICE q (Some [''for'', ''while'']) (JNumber (3 / 2)) fb)
   \<and> \<not> index_in_range (MULTIPLE_CHOICE q (Some [''for'', ''while'']) (JNumber (3 / 2)) fb)"
proof -
  have "\<lfloor>3 / 2 :: rat\<rfloor> = 1"
    by (rule floor_unique) simp_all
  then show ?thesis
    by simp
qed

section \<open>Properties of the streak update\<close>

text \<open>The new streak, by the two date tests of the code.\<close>

lemma streak_cases:
  "currentStreak (handleNextStep_profile clock topicPoints u) =
     (case lastActivityDate u of
        None \<Rightarrow> 1
      | Some d \<Rightarrow>
          if isToday clock d then currentStreak u
          else if isYesterday clock d then currentStreak u + 1 else 1)"
  by (simp add: handleNextStep_profile_def Let_def split: option.splits)

text \<open>
  In a browser on UTC the two tests say what their names say: the stored day is the
  day the code stores as today, or the day before it.
\<close>

lemma date_tests_on_utc:
  assumes "utcOffset clock = (\<lambda>instant. 0)"
  shows "isToday clock d = (d = toISODate (now clock))"
    and "isYesterday clock d = (d = toISODate (now clock) - 1)"
  using assms by (simp_all add: isToday_def isYesterday_def toDateString_def parse_date_def toISODate_def)

lemma streak_on_utc:
  assumes "utcOffset clock = (\<lambda>instant. 0)"
  shows "currentStreak (handleNextStep_profile clock topicPoints u) =
     (if lastActivityDate u = Some (toISODate (now clock)) then currentStreak u
      else if lastActivityDate u = Some (toISODate (now clock) - 1) then currentStreak u + 1
      else 1)"
  using assms by (auto simp: streak_cases date_tests_on_utc split: option.splits)

text \<open>
  The activity log: the first entry of the day gets the points added, and only if there
  is none an entry is appended. A day that is in the log gets no second entry.
\<close>

lemma find_index_None: "find_index P xs = None \<longleftrightarrow> list_all (\<lambda>x. \<not> P x) xs"
  by (induction xs) auto

lemma find_index_Some: "find_index P xs = Some i \<Longrightarrow> i < length xs \<and> P (xs ! i)"
  by (induction xs arbitrary: i) (auto split: if_splits)

lemma log_update:
  "activityLog (handleNextStep_profile clock topicPoints u) =
     (case find_index (\<lambda>entry. log_date entry = toISODate (now clock)) (activityLog u) of
        Some i \<Rightarrow> (activityLog u)[i := (activityLog u ! i)
            \<lparr>log_points := log_points (activityLog u ! i) +
               (case topicPoints of Some p \<Rightarrow> if p = 0 then 100 else p | None \<Rightarrow> 100)\<rparr>]
      | None \<Rightarrow> activityLog u @
          [\<lparr>log_date = toISODate (now clock),
            log_points = (case topicPoints of Some p \<Rightarrow> if p = 0 then 100 else p | None \<Rightarrow> 100)\<rparr>])"
  by (simp add: handleNextStep_profile_def Let_def split: option.splits)

lemma log_has_no_new_entry_for_a_logged_day:
  assumes "\<not> list_all (\<lambda>entry. log_date entry \<noteq> toISODate (now clock)) (activityLog u)"
  shows "length (activityLog (handleNextStep_profile clock topicPoints u)) = length (activityLog u)"
    and "map log_date (activityLog (handleNextStep_profile clock topicPoints u)) =
         map log_date (activityLog u)"
proof -
  from assms obtain i where
    i: "find_index (\<lambda>entry. log_date entry = toISODate (now clock)) (activityLog u) = Some i"
    using find_index_None [of "\<lambda>entry. log_date entry = toISODate (now clock)" "activityLog u"]
    by auto
  show "length (activityLog (handleNextStep_profile clock topicPoints u)) = length (activityLog u)"
    by (simp add: log_update i)
  show "map log_date (activityLog (handleNextStep_profile clock topicPoints u)) =
        map log_date (activityLog u)"
    using find_index_Some [OF i] by (simp add: log_update i map_update list_update_same_conv)
qed

text \<open>
  C5. The claim: when \<^verbatim>\<open>lastActivityDate\<close> is today, completing a lesson leaves the streak
  unchanged. \<^verbatim>\<open>lastActivityDate\<close> is written as the UTC day (line 306) but read back by
  \<^verbatim>\<open>isToday\<close> and \<^verbatim>\<open>isYesterday\<close> as midnight UTC shown in local time. In a browser five
  hours west of Greenwich, at 10:00 local time on day 20000 (15:00 UTC, so the day is
  20000 in both calendars), a user whose \<^verbatim>\<open>lastActivityDate\<close> is day 20000 (an earlier
  lesson of the same day) completes a lesson: the stored day reads as yesterday and the
  streak goes from 3 to 4. The day's log entry does accumulate.
\<close>

theorem same_day_completion_raises_streak:
  "(let clock = \<lparr>now = 1728054000000, utcOffset = (\<lambda>instant. - 300)\<rparr>;
        user = \<lparr>points = 200, currentStreak = 3, longestStreak = 3,
                lastActivityDate = Some 20000,
                activityLog = [\<lparr>log_date = 20000, log_points = 50\<rparr>]\<rparr>
    in toISODate (now clock) = 20000 \<and> toDateString clock (now clock) = 20000
       \<and> currentStreak (handleNextStep_profile clock (Some 50) user) = 4
       \<and> activityLog (handleNextStep_profile clock (Some 50) user)
           = [\<lparr>log_date = 20000, log_points = 100\<rparr>])"
  by (simp add: handleNextStep_profile_def Let_def toISODate_def toDateString_def isToday_def
      isYesterday_def parse_date_def)

section \<open>Properties of the handlers\<close>

text \<open>
  \<^verbatim>\<open>speak\<close> with no callback, or with one that only sets the orchestrator's state, leaves
  the attempt counter and the hint alone.
\<close>

lemma speak_keeps_attempts:
  assumes "cb = NoCallback \<or> cb = SetTutorState st"
  shows "incorrectAttempts (speak inp cb g s) = incorrectAttempts s
       \<and> currentHint (speak inp cb g s) = currentHint s"
  using assms by (auto simp: speak.simps cancel_def synth_cancel_def synth_speak_def Let_def)

text \<open>
  The two verdicts of a guided-lesson submission. On an incorrect verdict the counter
  goes up by one, the hint is stored and the state is \<open>INCORRECT\<close> when the handler
  returns. On a correct verdict counter and hint are reset, and the state is
  \<open>AWAITING_CONTINUE\<close> when the handler returns, whether or not anything is being spoken.
\<close>

lemma submit_verdict:
  assumes "appMode r = TUTOR" and "currentSkill r = Some skillName"
    and "currentStep r = Some (CODE_TASK mission startingCode)"
    and "evaluateCode evalResponse = Inr (isCorrect, feedback, hint)"
  shows "tutorState (handleSubmitCode r evalResponse chatResponse s)
           = (if isCorrect then AWAITING_CONTINUE else INCORRECT)
       \<and> incorrectAttempts (handleSubmitCode r evalResponse chatResponse s)
           = (if isCorrect then 0 else incorrectAttempts s + 1)
       \<and> currentHint (handleSubmitCode r evalResponse chatResponse s)
           = (if isCorrect then None else hint)"
proof -
  have ts: "tutorState (speak inp (SetTutorState AWAITING_CONTINUE) g
              (x\<lparr>tutorState := AWAITING_CONTINUE\<rparr>)) = AWAITING_CONTINUE" for inp g x
    by (simp add: speak.simps cancel_def synth_cancel_def synth_speak_def Let_def)
  show ?thesis
    using assms by (simp add: handleSubmitCode_def Let_def speak_keeps_attempts ts)
qed

text \<open>
  C6. The claim: on a correct verdict the state becomes \<open>AWAITING_CONTINUE\<close> only after
  the feedback has been spoken. The handler sets that state itself before it calls
  \<^verbatim>\<open>speak\<close> (line 506), and passes a callback that sets it again. Below, a correct
  verdict arrives in a guided lesson with sound on: when the handler returns, the state
  is \<open>AWAITING_CONTINUE\<close> while the feedback is in flight and the callback is still
  pending.
\<close>

theorem correct_verdict_continues_before_speech_ends:
  "(let s = handleSubmitCode tutor_on_code_task
              (Inr \<lparr>ev_isCorrect = Some True, ev_feedback = Some ''Shabash'', ev_hint = None\<rparr>)
              (Inl NonError) tutor_on_code_task
    in tutorState s = AWAITING_CONTINUE
       \<and> isSpeaking s = True
       \<and> synthQueue s = [\<lparr>utt_text = ''Shabash'', utt_lang = ''hi-IN''\<rparr>]
       \<and> onEndCallback s = SetTutorState AWAITING_CONTINUE
       \<and> incorrectAttempts s = 0 \<and> currentHint s = None)"
  by (simp add: speak.simps tutor_on_code_task_def initial_app_def handleSubmitCode_def
      currentStep_def evaluateCode_def guarded_def segments_of_def nonblank_def trim_def
      is_space_def mk_utterance_def cancel_def synth_cancel_def synth_speak_def
      preprocessTextForSpeech_def Let_def match_decimal_def is_digit_def use_at_def)

text \<open>
  A chat exchange of a guided lesson or of the doubt solver that fails: the failed
  message and its attachment are kept for a retry, and the state is set to the
  \<^verbatim>\<open>stateBeforeDoubt\<close> the handler closed over, which is the snapshot of the exchange
  before this one (the snapshot taken at line 387 does not reach the constant that
  line 455 reads).
\<close>

lemma chat_failure:
  assumes "trim message \<noteq> [] \<or> attachment \<noteq> None"
    and "mcq_match r message isSystemMessage = None"
    and "appMode r \<noteq> INTERVIEW_PREP"
    and "generateChatResponse attachment response = Inl err"
  shows "tutorState (handleSendChatMessage r message attachment isSystemMessage response s)
           = stateBeforeDoubt r
       \<and> lastFailedMessage (handleSendChatMessage r message attachment isSystemMessage response s)
           = Some (message, attachment)
       \<and> stateBeforeDoubt (handleSendChatMessage r message attachment isSystemMessage response s)
           = tutorState r"
  using assms by (auto simp: handleSendChatMessage_def chat_catch_def Let_def)

text \<open>
  C7. The claim: after a failed chat exchange the state is the one that was active just
  before the exchange began. Below, the learner is in state \<open>INCORRECT\<close>, no chat has
  taken place (so \<^verbatim>\<open>stateBeforeDoubt\<close> still has its initial value \<open>AWAITING_TASK\<close>), and
  the provider call of a chat message fails: the state becomes \<open>AWAITING_TASK\<close>, not
  \<open>INCORRECT\<close>. The failed message is retained.
\<close>

theorem failed_chat_restores_older_state:
  "(let s = handleSendChatMessage tutor_after_wrong_answer ''why?'' None False
              (Inl (ErrorObject ''503 unavailable'')) tutor_after_wrong_answer
    in tutorState tutor_after_wrong_answer = INCORRECT
       \<and> tutorState s = AWAITING_TASK
       \<and> stateBeforeDoubt s = INCORRECT
       \<and> lastFailedMessage s = Some (''why?'', None)
       \<and> chatError s =
           Some (''Sorry, I'' @ [CHR 0x27] @ ''m having trouble responding right now. Please try again.''))"
  by (simp add: tutor_after_wrong_answer_def initial_app_def handleSendChatMessage_def
      mcq_match_def chat_catch_def error_text_def generateChatResponse_def file_part_def
      guarded_def handleApiError_def trim_def is_space_def Let_def)

text \<open>
  The handlers on a call that succeeds. A fetched lesson is installed and its first step
  begins: an explanation is spoken, and the state moves on when the speech has ended.
  A solved doubt is stored and its explanation spoken. An interview plan is stored, and
  the timer speaks the opening statement in the voice of the first interviewer. An
  outline moves the course set-up view to its review.
\<close>

lemma fetchLesson_success:
  "(let s = fetchLesson tutor_before_lesson
              (Inr \<lparr>topicTitle = Some ''Loops'',
                    steps = Some [EXPLANATION ''Loops repeat.'',
                                  CODE_TASK ''Print hello'' ''# code'']\<rparr>)
              tutor_before_lesson
    in tutorState s = EXPLAINING
       \<and> lesson s = Some [EXPLANATION ''Loops repeat.'', CODE_TASK ''Print hello'' ''# code'']
       \<and> userCode s = ''# code''
       \<and> map utt_text (synthQueue s) = [''Loops repeat.'']
       \<and> conversationHistory s = [\<lparr>sender = Ai, msg_text = ''Loops repeat.'', isSystem = False\<rparr>]
       \<and> \<not> isLoading s \<and> error s = None
       \<and> tutorState (utterance_ended s) = AWAITING_CONTINUE)"
  by (simp add: speak.simps tutor_before_lesson_def initial_app_def fetchLesson_def
      generateLessonContent_def lesson_body_def guarded_def initialCode_def
      utterance_ended_def segments_of_def nonblank_def trim_def is_space_def mk_utterance_def
      cancel_def synth_cancel_def synth_speak_def preprocessTextForSpeech_def Let_def
      match_decimal_def is_digit_def use_at_def)

lemma handleSolveDoubt_success:
  "(let s = handleSolveDoubt ''sum'' None
              (Inr \<lparr>sol_problemExplanation = Some ''Do sankhya jodni hain.'',
                    sol_solutionExplanation = Some ''Plus lagaiye.'',
                    sol_solutionCode = Some ''print(a + b)'', sol_language = Some ''Python''\<rparr>)
              initial_app
    in tutorState s = AWAITING_TASK \<and> error s = None \<and> \<not> isLoading s
       \<and> solutionLanguage s = Some ''Python'' \<and> userCode s = ''print(a + b)''
       \<and> map utt_text (synthQueue s) = [''Do sankhya jodni hain.'']
       \<and> map utt_text (synthQueue (utterance_ended s)) = [''Plus lagaiye.''])"
  by (simp add: speak.simps initial_app_def handleSolveDoubt_def generateProblemSolution_def
      file_part_def guarded_def utterance_ended_def segments_of_def nonblank_def trim_def
      is_space_def mk_utterance_def cancel_def synth_cancel_def synth_speak_def
      preprocessTextForSpeech_def Let_def match_decimal_def is_digit_def use_at_def)

lemma handleStartInterview_success:
  "(let s = handleStartInterview None
              (Inr \<lparr>plan_rounds = Some [''female'', ''male''],
                    plan_openingStatement = Some ''Hello, I am Priya.''\<rparr>)
              (initial_app\<lparr>appMode := INTERVIEW_PREP\<rparr>);
        t = handleStartInterview_timer [''female'', ''male''] ''Hello, I am Priya.'' s
    in currentInterviewRound s = Some ''female'' \<and> error s = None \<and> \<not> isLoading s
       \<and> conversationHistory s =
           [\<lparr>sender = Ai, msg_text = ''Hello, I am Priya.'', isSystem = False\<rparr>]
       \<and> synthQueue t = [\<lparr>utt_text = ''Hello, I am Priya.'', utt_lang = ''en-US''\<rparr>]
       \<and> tutorState (utterance_ended t) = AWAITING_TASK)"
  by (simp add: speak.simps initial_app_def handleStartInterview_def
      handleStartInterview_timer_def generateInterviewPlan_def file_part_def guarded_def
      utterance_ended_def segments_of_def nonblank_def trim_def is_space_def mk_utterance_def
      cancel_def synth_cancel_def synth_speak_def preprocessTextForSpeech_def Let_def
      match_decimal_def is_digit_def use_at_def)

lemma handleGenerateOutline_success:
  "handleGenerateOutline
     \<lparr>cv_prompt = ''python'', cv_numTopics = 10, cv_view = TUTOR_SETUP, cv_outline = None,
      cv_isLoading = False, cv_error = Some ''old''\<rparr>
     (Inr \<lparr>ol_skillName = Some ''Python'', ol_topics = Some [''Loops'']\<rparr>)
     \<lparr>cv_prompt = ''python'', cv_numTopics = 10, cv_view = TUTOR_SETUP, cv_outline = None,
      cv_isLoading = False, cv_error = Some ''old''\<rparr>
   = \<lparr>cv_prompt = ''python'', cv_numTopics = 10, cv_view = OUTLINE_REVIEW,
      cv_outline = Some (''Python'', [''Loops'']), cv_isLoading = False, cv_error = None\<rparr>"
  by (simp add: handleGenerateOutline_def generateCourseOutline_def guarded_def trim_def
      is_space_def Let_def)











section \<open>Properties of the listening gate\<close>

lemma commit_inputs:
  "g_tutorState (commit g) = g_tutorState g"
  "g_isLoading (commit g) = g_isLoading g"
  "g_isSpeaking (commit g) = g_isSpeaking g"
  "isSpeechSupported (commit g) = isSpeechSupported g"
  by (auto simp: commit_def Let_def gate_effect_def startListening_def stopListening_def
      split: option.splits)

lemma canListen_commit: "canListen (commit g) = canListen g"
  by (simp add: canListen_def commit_inputs)

lemma gate_inv_commit: "gate_inv g \<Longrightarrow> gate_inv (commit g)"
  by (auto simp: gate_inv_def commit_def Let_def gate_effect_def startListening_def
      stopListening_def current_deps_def canListen_def split: option.splits if_splits)

lemma gate_inv_step: "gate_inv g \<Longrightarrow> gate_inv (gate_step g ev)"
  by (cases ev) (auto simp: gate_inv_commit, auto simp: gate_inv_def split: option.splits)

lemma gate_inv_run: "gate_inv g \<Longrightarrow> gate_inv (gate_run g evs)"
  unfolding gate_run_def by (induction evs arbitrary: g) (auto simp: gate_inv_step)

lemma gate_inv_mount: "gate_inv (gate_mount supported)"
  by (simp add: gate_inv_def gate_mount_def)

lemma settled_inv: "settled g \<Longrightarrow> gate_inv g \<Longrightarrow> recognising g = canListen g"
  by (auto simp: settled_def gate_inv_def current_deps_def canListen_def)

lemma commit_settled: "settled g \<Longrightarrow> commit g = g"
  by (simp add: settled_def commit_def)

lemma commit_installs:
  "\<not> settled g \<Longrightarrow>
   \<exists>r. effectDeps (commit g) =
        Some (g_tutorState g, g_isLoading g, isSpeechSupported g, g_isSpeaking g, r)"
  by (auto simp: settled_def commit_def Let_def current_deps_def)

lemma two_commits_settle:
  assumes "effectDeps g =
     Some (g_tutorState g, g_isLoading g, isSpeechSupported g, g_isSpeaking g, r)"
  shows "settled (commit (commit g))"
  using assms
  by (cases "recognising g"; cases r; cases "canListen g")
     (auto simp: settled_def commit_def Let_def gate_effect_def startListening_def
       stopListening_def current_deps_def canListen_def)

text \<open>Three renders at most settle the gate, whatever its state.\<close>

lemma three_commits_settle: "settled (commit (commit (commit g)))"
proof (cases "settled g")
  case True
  then show ?thesis
    by (simp add: commit_settled)
next
  case False
  from commit_installs [OF False] obtain r where
    "effectDeps (commit g) =
       Some (g_tutorState g, g_isLoading g, isSpeechSupported g, g_isSpeaking g, r)"
    by blast
  then have "effectDeps (commit g) =
       Some (g_tutorState (commit g), g_isLoading (commit g), isSpeechSupported (commit g),
             g_isSpeaking (commit g), r)"
    by (simp add: commit_inputs)
  then show ?thesis
    by (rule two_commits_settle)
qed

lemma gate_run_append: "gate_run g (evs @ evs') = gate_run (gate_run g evs) evs'"
  by (simp add: gate_run_def)

lemma gate_step_supported: "isSpeechSupported (gate_step g ev) = isSpeechSupported g"
  by (cases ev) (simp_all add: commit_inputs)

lemma gate_run_supported: "isSpeechSupported (gate_run g evs) = isSpeechSupported g"
  unfolding gate_run_def by (induction evs arbitrary: g) (simp_all add: gate_step_supported)

lemma canListen_explicit:
  "canListen g =
     ((g_tutorState g = AWAITING_TASK \<or> g_tutorState g = INCORRECT
        \<or> g_tutorState g = AWAITING_CHOICE)
      \<and> \<not> g_isLoading g \<and> \<not> g_isSpeaking g \<and> isSpeechSupported g)"
  by (simp add: canListen_def isAwaitingUserInput_def)

text \<open>
  C2, as the code has it. After any sequence of state changes and renders since
  mounting: whenever the gate is settled (the effect has run on the present values of
  its dependencies), the recogniser is listening exactly if the state is one of
  \<open>AWAITING_TASK\<close>, \<open>INCORRECT\<close>, \<open>AWAITING_CHOICE\<close>, nothing is loading, nothing is being
  spoken and the environment supports recognition; three further renders settle the
  gate, with the recogniser as that condition on the present values asks; and so, once
  the state, the loading flag and the speaking flag have been set to any values, three
  renders later the recogniser is running exactly if those values meet the condition.
\<close>

theorem gate_listens_when_settled:
  "(settled (gate_run (gate_mount supported) evs) \<longrightarrow>
      recognising (gate_run (gate_mount supported) evs)
        = ((g_tutorState (gate_run (gate_mount supported) evs) = AWAITING_TASK
             \<or> g_tutorState (gate_run (gate_mount supported) evs) = INCORRECT
             \<or> g_tutorState (gate_run (gate_mount supported) evs) = AWAITING_CHOICE)
           \<and> \<not> g_isLoading (gate_run (gate_mount supported) evs)
           \<and> \<not> g_isSpeaking (gate_run (gate_mount supported) evs)
           \<and> supported))
   \<and> settled (gate_run (gate_mount supported) (evs @ [Commit, Commit, Commit]))
   \<and> recognising (gate_run (gate_mount supported) (evs @ [Commit, Commit, Commit]))
       = ((g_tutorState (gate_run (gate_mount supported) evs) = AWAITING_TASK
             \<or> g_tutorState (gate_run (gate_mount supported) evs) = INCORRECT
             \<or> g_tutorState (gate_run (gate_mount supported) evs) = AWAITING_CHOICE)
           \<and> \<not> g_isLoading (gate_run (gate_mount supported) evs)
           \<and> \<not> g_isSpeaking (gate_run (gate_mount supported) evs)
           \<and> supported)
   \<and> recognising (gate_run (gate_mount supported)
        (evs @ [SetTutor st, SetLoading loading, SetSpeaking speaking, Commit, Commit, Commit]))
       = ((st = AWAITING_TASK \<or> st = INCORRECT \<or> st = AWAITING_CHOICE)
           \<and> \<not> loading \<and> \<not> speaking \<and> supported)"
proof -
  have sup: "isSpeechSupported (gate_run (gate_mount supported) xs) = supported" for xs
    by (simp add: gate_run_supported gate_mount_def)
  have three: "settled (gate_run (gate_mount supported) (xs @ [Commit, Commit, Commit]))
      \<and> recognising (gate_run (gate_mount supported) (xs @ [Commit, Commit, Commit]))
          = canListen (gate_run (gate_mount supported) xs)" for xs
  proof -
    let ?g = "gate_run (gate_mount supported) xs"
    have inv: "gate_inv ?g"
      by (rule gate_inv_run [OF gate_inv_mount])
    have run3: "gate_run (gate_mount supported) (xs @ [Commit, Commit, Commit])
        = commit (commit (commit ?g))"
      by (simp add: gate_run_append) (simp add: gate_run_def)
    have s3: "settled (commit (commit (commit ?g)))"
      by (rule three_commits_settle)
    have inv3: "gate_inv (commit (commit (commit ?g)))"
      by (intro gate_inv_commit inv)
    have "recognising (commit (commit (commit ?g))) = canListen (commit (commit (commit ?g)))"
      by (rule settled_inv [OF s3 inv3])
    then have "recognising (commit (commit (commit ?g))) = canListen ?g"
      by (simp add: canListen_commit)
    with s3 run3 show ?thesis
      by simp
  qed
  let ?g = "gate_run (gate_mount supported) evs"
  have first: "settled ?g \<longrightarrow> recognising ?g = canListen ?g"
    using settled_inv [OF _ gate_inv_run [OF gate_inv_mount]] by blast
  have set3: "gate_run (gate_mount supported)
        (evs @ [SetTutor st, SetLoading loading, SetSpeaking speaking, Commit, Commit, Commit])
      = gate_run (gate_mount supported)
        ((evs @ [SetTutor st, SetLoading loading, SetSpeaking speaking]) @ [Commit, Commit, Commit])"
    by simp
  have inputs: "canListen (gate_run (gate_mount supported)
        (evs @ [SetTutor st, SetLoading loading, SetSpeaking speaking]))
      = ((st = AWAITING_TASK \<or> st = INCORRECT \<or> st = AWAITING_CHOICE)
           \<and> \<not> loading \<and> \<not> speaking \<and> supported)"
    unfolding canListen_explicit sup by (simp add: gate_run_append) (simp add: gate_run_def)
  have last: "recognising (gate_run (gate_mount supported)
        (evs @ [SetTutor st, SetLoading loading, SetSpeaking speaking, Commit, Commit, Commit]))
       = ((st = AWAITING_TASK \<or> st = INCORRECT \<or> st = AWAITING_CHOICE)
           \<and> \<not> loading \<and> \<not> speaking \<and> supported)"
    unfolding set3 using three [of "evs @ [SetTutor st, SetLoading loading, SetSpeaking speaking]"]
      inputs by simp
  from first three [of evs] last show ?thesis
    unfolding canListen_explicit sup by blast
qed

lemma gate_example_settled:
  "settled (gate_run (gate_mount True) [SetTutor AWAITING_TASK, Commit, Commit])"
  "g_tutorState (gate_run (gate_mount True) [SetTutor AWAITING_TASK, Commit, Commit]) = AWAITING_TASK"
  "\<not> g_isLoading (gate_run (gate_mount True) [SetTutor AWAITING_TASK, Commit, Commit])"
  "\<not> g_isSpeaking (gate_run (gate_mount True) [SetTutor AWAITING_TASK, Commit, Commit])"
  by (simp_all add: gate_run_def gate_mount_def commit_def current_deps_def gate_effect_def
      canListen_def isAwaitingUserInput_def startListening_def stopListening_def settled_def
      Let_def)

text \<open>
  The recogniser runs while the learner works on a task or after a wrong answer, and
  does not run while the system speaks, during an evaluation, or where recognition is
  not supported.
\<close>

theorem gate_listens_when_settled_witness:
  "settled (gate_run (gate_mount True) [SetTutor AWAITING_TASK, Commit, Commit])
   \<and> recognising (gate_run (gate_mount True) [SetTutor AWAITING_TASK, Commit, Commit])
   \<and> recognising (gate_run (gate_mount True)
       ([] @ [SetTutor INCORRECT, SetLoading False, SetSpeaking False, Commit, Commit, Commit]))
   \<and> \<not> recognising (gate_run (gate_mount True)
       ([SetTutor AWAITING_TASK, Commit, Commit] @
        [SetTutor AWAITING_TASK, SetLoading False, SetSpeaking True, Commit, Commit, Commit]))
   \<and> \<not> recognising (gate_run (gate_mount True)
       ([SetTutor AWAITING_TASK, Commit, Commit] @
        [SetTutor EVALUATING, SetLoading True, SetSpeaking False, Commit, Commit, Commit]))
   \<and> \<not> recognising (gate_run (gate_mount False)
       ([] @ [SetTutor AWAITING_CHOICE, SetLoading False, SetSpeaking False, Commit, Commit, Commit]))"
  using gate_example_settled
    gate_listens_when_settled [of True "[SetTutor AWAITING_TASK, Commit, Commit]"
        AWAITING_TASK False True]
    gate_listens_when_settled [of True "[SetTutor AWAITING_TASK, Commit, Commit]"
        EVALUATING True False]
    gate_listens_when_settled [of True "[]" INCORRECT False False]
    gate_listens_when_settled [of False "[]" AWAITING_CHOICE False False]
  by simp

text \<open>
  The claim as stated holds at every point of execution. Between a change of an input
  and the effect's next run it does not: here the recogniser was started while the
  learner worked on a task, and speech begins. Until the next render the recogniser is
  listening while the system speaks; the render stops it.
\<close>

theorem listening_while_speaking_counterexample:
  "recognising (gate_run (gate_mount True) [SetTutor AWAITING_TASK, Commit, Commit, SetSpeaking True])
   \<and> g_isSpeaking
         (gate_run (gate_mount True) [SetTutor AWAITING_TASK, Commit, Commit, SetSpeaking True])
   \<and> \<not> recognising
         (gate_run (gate_mount True)
            [SetTutor AWAITING_TASK, Commit, Commit, SetSpeaking True, Commit])"
  by (simp add: gate_run_def gate_mount_def commit_def current_deps_def gate_effect_def
      canListen_def isAwaitingUserInput_def startListening_def stopListening_def Let_def)

end
